theory Spec2Isabelle
  imports Main "HOL-Library.Word" "HOL-Library.AList" "HOL-Library.Multiset"
begin

section \<open>Strings and untyped values\<close>

text \<open>
  A JavaScript string is a sequence of 16-bit code units. \<open>js\<close> writes an ASCII
  literal as one.
\<close>

type_synonym jsstring = "16 word list"

abbreviation js :: "string \<Rightarrow> jsstring" where
  "js s \<equiv> map of_char s"

text \<open>
  The code units that \<^verbatim>\<open>String.prototype.trim\<close> strips and that \<^verbatim>\<open>\s\<close> matches in a
  regular expression: ECMAScript's WhiteSpace and LineTerminator.
\<close>

definition isWhiteSpace :: "16 word \<Rightarrow> bool" where
  "isWhiteSpace c \<longleftrightarrow>
     c \<in> {0x09, 0x0A, 0x0B, 0x0C, 0x0D, 0x20, 0xA0, 0x1680, 0x2028, 0x2029, 0x202F, 0x205F,
          0x3000, 0xFEFF} \<or> (0x2000 \<le> c \<and> c \<le> 0x200A)"

definition trim :: "jsstring \<Rightarrow> jsstring" where
  "trim s = rev (dropWhile isWhiteSpace (rev (dropWhile isWhiteSpace s)))"

text \<open>
  \<^verbatim>\<open>String.prototype.toLowerCase\<close>. The program compares lower-cased text only with
  ASCII words (the keys of \<^verbatim>\<open>MODULE_ALIAS\<close>, \<^verbatim>\<open>'ordered'\<close>). The code units whose
  Unicode lower-case form is ASCII are \<open>A\<close> to \<open>Z\<close> and the Kelvin sign U+212A
  (which becomes \<open>k\<close>); every other code unit is kept as it is here, which neither makes
  nor breaks such a match.
\<close>

definition lowerUnit :: "16 word \<Rightarrow> 16 word" where
  "lowerUnit c = (if 0x41 \<le> c \<and> c \<le> 0x5A then c + 0x20 else if c = 0x212A then 0x6B else c)"

definition toLowerCase :: "jsstring \<Rightarrow> jsstring" where
  "toLowerCase s = map lowerUnit s"

text \<open>
  \<^verbatim>\<open>s.split(re)\<close> for a regular expression that matches one code unit of a class:
  every match ends a piece, so two separators in a row give an empty piece.
\<close>

fun splitOn :: "(16 word \<Rightarrow> bool) \<Rightarrow> jsstring \<Rightarrow> jsstring list" where
  "splitOn p [] = [[]]"
| "splitOn p (c # cs) =
     (if p c then [] # splitOn p cs
      else (case splitOn p cs of w # ws \<Rightarrow> (c # w) # ws | [] \<Rightarrow> [[c]]))"

text \<open>
  \<^verbatim>\<open>s.split(re)\<close> for a regular expression that matches a run (\<^verbatim>\<open>+\<close>) of code units
  of a class: a whole run is one separator.
\<close>

function splitRuns :: "(16 word \<Rightarrow> bool) \<Rightarrow> jsstring \<Rightarrow> jsstring list" where
  "splitRuns p [] = [[]]"
| "splitRuns p (c # cs) =
     (if p c then [] # splitRuns p (dropWhile p cs)
      else (case splitRuns p cs of w # ws \<Rightarrow> (c # w) # ws | [] \<Rightarrow> [[c]]))"
  by pat_completeness auto
termination
  by (relation "measure (\<lambda>(p, s). length s)") (auto simp: le_imp_less_Suc length_dropWhile_le)

text \<open>
  \<^verbatim>\<open>s.replace(pattern, '')\<close> with a string pattern: the first occurrence is removed.
\<close>

fun removeFirst :: "jsstring \<Rightarrow> jsstring \<Rightarrow> jsstring" where
  "removeFirst pat [] = []"
| "removeFirst pat (c # cs) =
     (if take (length pat) (c # cs) = pat then drop (length pat) (c # cs)
      else c # removeFirst pat cs)"

text \<open>\<^verbatim>\<open>parts.join(sep)\<close>.\<close>

fun joinWith :: "jsstring \<Rightarrow> jsstring list \<Rightarrow> jsstring" where
  "joinWith sep [] = []"
| "joinWith sep [x] = x"
| "joinWith sep (x # y # rest) = x @ sep @ joinWith sep (y # rest)"

text \<open>
  The errors the normalisation can raise: the \<^verbatim>\<open>in\<close> operator applied to a primitive
  value, and \<^verbatim>\<open>encodeURIComponent\<close> applied to a string with an unpaired surrogate.
\<close>

datatype JsError = TypeError | URIError

text \<open>
  \<^verbatim>\<open>encodeURIComponent\<close>: the unreserved characters are kept, every other code point is
  written as the percent-escaped bytes of its UTF-8 form.
\<close>

definition uriUnreserved :: "16 word \<Rightarrow> bool" where
  "uriUnreserved c \<longleftrightarrow>
     (0x41 \<le> c \<and> c \<le> 0x5A) \<or> (0x61 \<le> c \<and> c \<le> 0x7A) \<or> (0x30 \<le> c \<and> c \<le> 0x39)
     \<or> c \<in> set (js ''-_.!~*'' @ [0x27] @ js ''()'')"

definition hexDigit :: "nat \<Rightarrow> 16 word" where
  "hexDigit n = (if n < 10 then 0x30 + of_nat n else 0x41 + of_nat (n - 10))"

definition percentByte :: "nat \<Rightarrow> jsstring" where
  "percentByte b = [0x25, hexDigit (b div 16), hexDigit (b mod 16)]"

definition utf8 :: "nat \<Rightarrow> nat list" where
  "utf8 cp =
     (if cp < 0x80 then [cp]
      else if cp < 0x800 then [0xC0 + cp div 0x40, 0x80 + cp mod 0x40]
      else if cp < 0x10000 then
        [0xE0 + cp div 0x1000, 0x80 + (cp div 0x40) mod 0x40, 0x80 + cp mod 0x40]
      else
        [0xF0 + cp div 0x40000, 0x80 + (cp div 0x1000) mod 0x40,
         0x80 + (cp div 0x40) mod 0x40, 0x80 + cp mod 0x40])"

fun encodeURIComponent :: "jsstring \<Rightarrow> JsError + jsstring" where
  "encodeURIComponent [] = Inr []"
| "encodeURIComponent (c # cs) =
     (if uriUnreserved c then
        (case encodeURIComponent cs of Inl e \<Rightarrow> Inl e | Inr r \<Rightarrow> Inr (c # r))
      else if 0xDC00 \<le> c \<and> c \<le> 0xDFFF then Inl URIError
      else if 0xD800 \<le> c \<and> c \<le> 0xDBFF then
        (case cs of
           [] \<Rightarrow> Inl URIError
         | d # ds \<Rightarrow>
             if 0xDC00 \<le> d \<and> d \<le> 0xDFFF then
               (case encodeURIComponent ds of
                  Inl e \<Rightarrow> Inl e
                | Inr r \<Rightarrow>
                    Inr (concat (map percentByte
                           (utf8 ((unat c - 0xD800) * 0x400 + (unat d - 0xDC00) + 0x10000))) @ r))
             else Inl URIError)
      else
        (case encodeURIComponent cs of
           Inl e \<Rightarrow> Inl e
         | Inr r \<Rightarrow> Inr (concat (map percentByte (utf8 (unat c))) @ r)))"

text \<open>
  The untyped tree that \<^verbatim>\<open>parseYaml\<close> returns, and every value the program handles as
  \<^verbatim>\<open>unknown\<close>.
  \<^item> \<open>JNum r\<close> is a number whose text \<^verbatim>\<open>String(n)\<close> is \<open>r\<close>. The normalisation looks at a
    number in three ways only: \<^verbatim>\<open>typeof\<close>, its truth value (false for \<open>0\<close>, \<open>-0\<close> and
    \<open>NaN\<close>, whose texts are \<open>0\<close> and \<open>NaN\<close>) and \<^verbatim>\<open>String(n)\<close>.
  \<^item> \<open>JObj ps\<close> is an object with the own enumerable properties \<open>ps\<close>, in the order
    \<^verbatim>\<open>Object.keys\<close> lists them; an object has a key once. A \<^verbatim>\<open>Date\<close> (a YAML
    timestamp) is an object without such properties, \<open>JObj []\<close>.
  \<^item> \<open>JBuiltin n\<close> is the member \<open>n\<close> of \<^verbatim>\<open>Object.prototype\<close>: a built-in function, or
    \<^verbatim>\<open>Object.prototype\<close> itself for \<open>__proto__\<close>. No YAML document holds one; a lookup
    in an object literal can return one (see \<open>MODULE_ALIAS_get\<close>).
\<close>

datatype jsval =
    JUndefined
  | JNull
  | JBool bool
  | JNum jsstring
  | JStr jsstring
  | JArr "jsval list"
  | JObj "(jsstring \<times> jsval) list"
  | JBuiltin jsstring

text \<open>The truth value of a value, as \<^verbatim>\<open>!input\<close> and \<^verbatim>\<open>cond ? a : b\<close> read it.\<close>

fun truthy :: "jsval \<Rightarrow> bool" where
  "truthy JUndefined = False"
| "truthy JNull = False"
| "truthy (JBool b) = b"
| "truthy (JNum r) = (r \<noteq> js ''0'' \<and> r \<noteq> js ''NaN'')"
| "truthy (JStr s) = (s \<noteq> [])"
| "truthy (JArr xs) = True"
| "truthy (JObj ps) = True"
| "truthy (JBuiltin n) = True"

text \<open>\<^verbatim>\<open>a ?? b\<close> on values.\<close>

fun coalesce :: "jsval \<Rightarrow> jsval \<Rightarrow> jsval" where
  "coalesce JUndefined b = b"
| "coalesce JNull b = b"
| "coalesce a b = a"

text \<open>
  \<^verbatim>\<open>key in data\<close> for the two keys the program asks for, \<open>conf\<close> and \<open>basic\<close>, which no
  prototype and no array has: an own property of an object. On a primitive value the
  operator throws a \<^verbatim>\<open>TypeError\<close>.
\<close>

fun hasProperty :: "jsstring \<Rightarrow> jsval \<Rightarrow> JsError + bool" where
  "hasProperty k (JObj ps) = Inr (k \<in> fst ` set ps)"
| "hasProperty k (JArr xs) = Inr False"
| "hasProperty k (JBuiltin n) = Inr False"
| "hasProperty k v = Inl TypeError"

text \<open>
  \<^verbatim>\<open>data.key\<close> on the root, which the program has cast to a record without a check: the
  own property of an object, \<^verbatim>\<open>undefined\<close> on an array or a built-in (none has a
  property of a name the program reads).
\<close>

fun field :: "jsval \<Rightarrow> jsstring \<Rightarrow> jsval" where
  "field (JObj ps) k = (case map_of ps k of Some v \<Rightarrow> v | None \<Rightarrow> JUndefined)"
| "field v k = JUndefined"

section \<open>Scalar coercion utilities\<close>

fun asRecord :: "jsval \<Rightarrow> (jsstring \<times> jsval) list option" where
  "asRecord (JObj ps) = Some ps"
| "asRecord (JBuiltin n) = (if n = js ''__proto__'' then Some [] else None)"
| "asRecord v = None"

text \<open>\<^verbatim>\<open>record?.key\<close> on the result of \<open>asRecord\<close>.\<close>

fun getProp :: "(jsstring \<times> jsval) list option \<Rightarrow> jsstring \<Rightarrow> jsval" where
  "getProp None k = JUndefined"
| "getProp (Some ps) k = (case map_of ps k of Some v \<Rightarrow> v | None \<Rightarrow> JUndefined)"

fun toArray :: "jsval \<Rightarrow> jsval list" where
  "toArray (JArr xs) = xs"
| "toArray v = []"

fun toStringValue :: "jsval \<Rightarrow> jsstring option" where
  "toStringValue (JStr s) = Some (trim s)"
| "toStringValue (JNum r) = Some r"
| "toStringValue v = None"

text \<open>\<^verbatim>\<open>a ?? b\<close> where \<open>a\<close> is a string or \<^verbatim>\<open>undefined\<close>.\<close>

fun orElse :: "'a option \<Rightarrow> 'a \<Rightarrow> 'a" where
  "orElse (Some x) d = x"
| "orElse None d = d"

text \<open>\<^verbatim>\<open>!value\<close> on a string or \<^verbatim>\<open>undefined\<close>: true for \<^verbatim>\<open>undefined\<close> and for \<open>''\<close>.\<close>

fun blank :: "jsstring option \<Rightarrow> bool" where
  "blank None = True"
| "blank (Some s) = (s = [])"

fun toStringArray :: "jsval \<Rightarrow> jsstring list" where
  "toStringArray (JArr xs) =
     filter (\<lambda>item. item \<noteq> []) (map trim (map (\<lambda>item. orElse (toStringValue item) []) xs))"
| "toStringArray v =
     (case toStringValue v of
        None \<Rightarrow> []
      | Some s \<Rightarrow> if s = [] then [] else [s])"

fun toBooleanValue :: "jsval \<Rightarrow> bool \<Rightarrow> bool" where
  "toBooleanValue (JBool b) fallback = b"
| "toBooleanValue v fallback = fallback"

fun joinTimeRange :: "jsstring option \<Rightarrow> jsstring option \<Rightarrow> jsstring option" where
  "joinTimeRange start finish =
     (if blank start \<and> blank finish then None
      else Some (joinWith (js '' - '')
             (List.map_filter (\<lambda>x. if blank x then None else x) [start, finish])))"

section \<open>Alias and order resolver\<close>

text \<open>
  \<^verbatim>\<open>ModuleKey\<close> is a union of seven string literals; \<open>moduleKeyName\<close> is the string a
  key is.
\<close>

datatype ModuleKey = Education | Skills | Projects | Profile | Work | Honors | OpenSource

fun moduleKeyName :: "ModuleKey \<Rightarrow> jsstring" where
  "moduleKeyName Education = js ''education''"
| "moduleKeyName Skills = js ''skills''"
| "moduleKeyName Projects = js ''projects''"
| "moduleKeyName Profile = js ''profile''"
| "moduleKeyName Work = js ''work''"
| "moduleKeyName Honors = js ''honors''"
| "moduleKeyName OpenSource = js ''openSource''"

definition DEFAULT_ORDER :: "ModuleKey list" where
  "DEFAULT_ORDER = [Education, Skills, Projects, Profile, Work, Honors, OpenSource]"

definition MODULE_TITLES :: "(jsstring \<times> jsstring) list" where
  "MODULE_TITLES =
     [(js ''education'', [0x6559, 0x80B2, 0x7ECF, 0x5386]),
      (js ''skills'', [0x4E13, 0x4E1A, 0x6280, 0x80FD]),
      (js ''projects'', [0x9879, 0x76EE, 0x7ECF, 0x5386]),
      (js ''profile'', [0x81EA, 0x6211, 0x63CF, 0x8FF0]),
      (js ''work'', [0x5DE5, 0x4F5C, 0x7ECF, 0x5386]),
      (js ''honors'', [0x8363, 0x8A89]),
      (js ''openSource'', [0x5F00, 0x6E90, 0x7ECF, 0x5386])]"

text \<open>The own properties of the object literal \<^verbatim>\<open>MODULE_ALIAS\<close>.\<close>

definition MODULE_ALIAS :: "(jsstring \<times> ModuleKey) list" where
  "MODULE_ALIAS =
     [(js ''education'', Education),
      (js ''edu'', Education),
      (js ''skill'', Skills),
      (js ''skills'', Skills),
      (js ''project'', Projects),
      (js ''projects'', Projects),
      (js ''exp'', Projects),
      (js ''profile'', Profile),
      (js ''evaluation'', Profile),
      (js ''work'', Work),
      (js ''workexperience'', Work),
      (js ''honer'', Honors),
      (js ''honor'', Honors),
      (js ''honors'', Honors),
      (js ''opensource'', OpenSource),
      (js ''open_source'', OpenSource)]"

text \<open>
  \<^verbatim>\<open>MODULE_ALIAS[clean]\<close> is a property read on an object literal, so a name that is not
  an own property is looked up in \<^verbatim>\<open>Object.prototype\<close>. What the read returns is a
  module key, or the member of \<^verbatim>\<open>Object.prototype\<close> of that name (each of them is an
  object, so it counts as true and is equal to itself only).
\<close>

definition objectPrototypeMembers :: "jsstring list" where
  "objectPrototypeMembers =
     [js ''constructor'', js ''__defineGetter__'', js ''__defineSetter__'',
      js ''hasOwnProperty'', js ''__lookupGetter__'', js ''__lookupSetter__'',
      js ''isPrototypeOf'', js ''propertyIsEnumerable'', js ''toString'', js ''valueOf'',
      js ''__proto__'', js ''toLocaleString'']"

datatype AliasValue = Key ModuleKey | Inherited jsstring

definition MODULE_ALIAS_get :: "jsstring \<Rightarrow> AliasValue option" where
  "MODULE_ALIAS_get k =
     (case map_of MODULE_ALIAS k of
        Some m \<Rightarrow> Some (Key m)
      | None \<Rightarrow> if k \<in> set objectPrototypeMembers then Some (Inherited k) else None)"

text \<open>\<^verbatim>\<open>value.replace(/[_\s-]/g, '').toLowerCase()\<close> and the lookup.\<close>

definition cleanKey :: "jsstring \<Rightarrow> jsstring" where
  "cleanKey v = toLowerCase (filter (\<lambda>c. \<not> (c = 0x5F \<or> isWhiteSpace c \<or> c = 0x2D)) v)"

fun normalizeModuleKey :: "jsstring option \<Rightarrow> AliasValue option" where
  "normalizeModuleKey None = None"
| "normalizeModuleKey (Some v) = (if v = [] then None else MODULE_ALIAS_get (cleanKey v))"

text \<open>
  The first loop of \<^verbatim>\<open>normalizeOrder\<close>: \<^verbatim>\<open>if (!normalized || output.includes(normalized))
  continue; output.push(normalized)\<close>.
\<close>

fun orderScan :: "AliasValue list \<Rightarrow> jsstring list \<Rightarrow> AliasValue list" where
  "orderScan output [] = output"
| "orderScan output (rawKey # rest) =
     (case normalizeModuleKey (Some rawKey) of
        None \<Rightarrow> orderScan output rest
      | Some normalized \<Rightarrow>
          if normalized \<in> set output then orderScan output rest
          else orderScan (output @ [normalized]) rest)"

text \<open>
  The second loop: \<^verbatim>\<open>if (!output.includes(fallbackKey)) output.push(fallbackKey)\<close>.
\<close>

fun orderFill :: "AliasValue list \<Rightarrow> ModuleKey list \<Rightarrow> AliasValue list" where
  "orderFill output [] = output"
| "orderFill output (fallbackKey # rest) =
     (if Key fallbackKey \<notin> set output then orderFill (output @ [Key fallbackKey]) rest
      else orderFill output rest)"

definition normalizeOrder :: "jsstring list \<Rightarrow> AliasValue list" where
  "normalizeOrder order =
     orderFill (orderScan [] (if order \<noteq> [] then order else map moduleKeyName DEFAULT_ORDER))
       DEFAULT_ORDER"

text \<open>
  The property name that \<^verbatim>\<open>output[moduleKey] = text\<close> writes: the module key, or the
  text of the inherited object (as V8 prints a built-in function).
\<close>

fun toPropertyKey :: "AliasValue \<Rightarrow> jsstring" where
  "toPropertyKey (Key k) = moduleKeyName k"
| "toPropertyKey (Inherited n) =
     (if n = js ''__proto__'' then js ''[object Object]''
      else js ''function '' @ (if n = js ''constructor'' then js ''Object'' else n)
             @ js ''() { [native code] }'')"

fun titleMapStep ::
  "(jsstring \<times> jsstring) list \<Rightarrow> jsstring \<times> jsval \<Rightarrow> (jsstring \<times> jsstring) list" where
  "titleMapStep output (key, title) =
     (case (normalizeModuleKey (Some key), toStringValue title) of
        (Some moduleKey, Some text) \<Rightarrow>
          if text \<noteq> [] then AList.update (toPropertyKey moduleKey) text output else output
      | _ \<Rightarrow> output)"

fun normalizeModuleTitleMap ::
  "(jsstring \<times> jsval) list option \<Rightarrow> (jsstring \<times> jsstring) list" where
  "normalizeModuleTitleMap None = []"
| "normalizeModuleTitleMap (Some ps) = foldl titleMapStep [] ps"

text \<open>\<^verbatim>\<open>{ ...a, ...b }\<close>.\<close>

definition spread ::
  "(jsstring \<times> jsstring) list \<Rightarrow> (jsstring \<times> jsstring) list \<Rightarrow> (jsstring \<times> jsstring) list" where
  "spread a b = foldl (\<lambda>acc (k, v). AList.update k v acc) a b"

section \<open>Leaf normalisers\<close>

definition normalizeColor :: "jsstring \<Rightarrow> jsstring" where
  "normalizeColor v =
     (let trimmed = trim v in
      if trimmed = [] then js ''#111111''
      else if take 1 trimmed = js ''#'' then trimmed
      else js ''#'' @ trimmed)"

definition normalizeTechStack :: "jsval \<Rightarrow> jsstring list" where
  "normalizeTechStack input =
     (let fromArray = toStringArray input in
      if fromArray \<noteq> [] then fromArray
      else (case toStringValue input of
              None \<Rightarrow> []
            | Some v \<Rightarrow>
                if v = [] then []
                else filter (\<lambda>item. item \<noteq> [])
                       (map trim
                          (splitRuns (\<lambda>c. isWhiteSpace c \<or> c = 0x2C \<or> c = 0x2F \<or> c = 0x7C) v))))"

record WorkPeriod =
  wp_start :: "jsstring option"
  wp_end :: "jsstring option"

text \<open>
  The separators of \<^verbatim>\<open>/[~\<dots>-]/\<close>: tilde, full-width tilde U+FF5E, em dash U+2014,
  en dash U+2013 and hyphen. \<^verbatim>\<open>const [start, end] = parts\<close> reads the first two
  pieces, \<^verbatim>\<open>undefined\<close> where there is none.
\<close>

definition periodSeparator :: "16 word \<Rightarrow> bool" where
  "periodSeparator c \<longleftrightarrow> c \<in> {0x7E, 0xFF5E, 0x2014, 0x2013, 0x2D}"

fun nthOpt :: "'a list \<Rightarrow> nat \<Rightarrow> 'a option" where
  "nthOpt [] n = None"
| "nthOpt (x # xs) 0 = Some x"
| "nthOpt (x # xs) (Suc n) = nthOpt xs n"

fun parseWorkPeriodText :: "jsstring option \<Rightarrow> WorkPeriod option" where
  "parseWorkPeriodText None = None"
| "parseWorkPeriodText (Some v) =
     (if v = [] then None
      else (let parts = map trim (splitOn periodSeparator v);
                start = nthOpt parts 0;
                finish = nthOpt parts 1
            in if blank start \<and> blank finish then None
               else Some \<lparr>wp_start = start, wp_end = finish\<rparr>))"

section \<open>The canonical document\<close>

text \<open>
  The interfaces of \<^verbatim>\<open>src/main.ts\<close>. An optional field is an \<open>option\<close>, with \<open>None\<close>
  for \<^verbatim>\<open>undefined\<close>. \<open>site_order\<close> is typed \<^verbatim>\<open>ModuleKey[]\<close> in the source and holds
  whatever \<open>normalizeOrder\<close> returned; \<open>site_moduleTitles\<close> lists the properties of the
  title object in their order. The sections that are \<^verbatim>\<open>{ enabled, items }\<close> share one
  record.
\<close>

record SiteConfig =
  site_title :: jsstring
  site_themeColor :: jsstring
  site_pdfFileName :: jsstring
  site_order :: "AliasValue list"
  site_moduleTitles :: "(jsstring \<times> jsstring) list"

record BasicEducationSummary =
  sum_school :: "jsstring option"
  sum_major :: "jsstring option"
  sum_degree :: "jsstring option"
  sum_graduationYear :: "jsstring option"
  sum_raw :: "jsstring option"

record ResumeLink =
  link_label :: jsstring
  link_url :: jsstring

record Contacts =
  con_wechat :: "jsstring option"
  con_phone :: "jsstring option"
  con_email :: "jsstring option"

record BasicConfig =
  basic_name :: jsstring
  basic_gender :: "jsstring option"
  basic_age :: "jsstring option"
  basic_position :: "jsstring option"
  basic_workPeriod :: "WorkPeriod option"
  basic_contacts :: Contacts
  basic_educationSummary :: "BasicEducationSummary option"
  basic_addressLinks :: "ResumeLink list"

record EducationCourse =
  course_name :: jsstring
  course_credit :: "jsstring option"

record EducationItem =
  edu_school :: jsstring
  edu_start :: "jsstring option"
  edu_end :: "jsstring option"
  edu_gpa :: "jsstring option"
  edu_major :: "jsstring option"
  edu_courses :: "EducationCourse list"
  edu_rank :: "jsstring option"
  edu_degree :: "jsstring option"

record SkillsConfig =
  skills_enabled :: bool
  skills_ordered :: bool
  skills_hideIndex :: bool
  skills_items :: "jsstring list"

record ProjectItem =
  proj_name :: jsstring
  proj_time :: "jsstring option"
  proj_description :: "jsstring option"
  proj_responsibilities :: "jsstring list"
  proj_techStack :: "jsstring list"

record WorkItem =
  work_company :: jsstring
  work_time :: "jsstring option"
  work_position :: "jsstring option"
  work_achievements :: "jsstring list"

record HonorItem =
  honor_name :: jsstring
  honor_time :: "jsstring option"

record OpenSourceItem =
  os_name :: jsstring
  os_url :: "jsstring option"
  os_stars :: "jsstring option"
  os_description :: "jsstring option"
  os_achievements :: "jsstring list"

record 'a ItemSection =
  enabled :: bool
  items :: "'a list"

record ProfileSection =
  profile_enabled :: bool
  profile_content :: jsstring

record NormalizedResumeConfig =
  site :: SiteConfig
  basic :: BasicConfig
  education :: "EducationItem ItemSection option"
  skills :: "SkillsConfig option"
  projects :: "ProjectItem ItemSection option"
  profile :: "ProfileSection option"
  work :: "WorkItem ItemSection option"
  honors :: "HonorItem ItemSection option"
  openSource :: "OpenSourceItem ItemSection option"

section \<open>Section normalisers\<close>

text \<open>
  Each \<^verbatim>\<open>for (const item of itemsRaw)\<close> loop maps an item to an entry or skips it
  (\<^verbatim>\<open>continue\<close>): the body is a function to \<open>option\<close> and the loop is
  \<open>List.map_filter\<close>.
\<close>

definition normalizeCourse :: "jsval \<Rightarrow> EducationCourse option" where
  "normalizeCourse course =
     (let courseObj = asRecord course;
          name = (case toStringValue (getProp courseObj (js ''name'')) of
                    Some n \<Rightarrow> Some n
                  | None \<Rightarrow> toStringValue course)
      in if blank name then None
         else Some \<lparr>course_name = the name,
                    course_credit = toStringValue (getProp courseObj (js ''credit''))\<rparr>)"

definition normalizeEducationItem :: "jsval \<Rightarrow> EducationItem option" where
  "normalizeEducationItem item =
     (let source = asRecord item;
          school = toStringValue (getProp source (js ''school''))
      in if blank school then None
         else Some \<lparr>edu_school = the school,
                    edu_start = toStringValue (getProp source (js ''start'')),
                    edu_end = toStringValue (getProp source (js ''end'')),
                    edu_gpa = toStringValue (getProp source (js ''gpa'')),
                    edu_major = toStringValue (getProp source (js ''major'')),
                    edu_courses =
                      List.map_filter normalizeCourse (toArray (getProp source (js ''courses''))),
                    edu_rank = toStringValue (getProp source (js ''rank'')),
                    edu_degree = toStringValue (getProp source (js ''degree''))\<rparr>)"

definition normalizeEducationSection :: "jsval \<Rightarrow> EducationItem ItemSection option" where
  "normalizeEducationSection input =
     (if \<not> truthy input then None
      else (let section = asRecord input;
                itemsRaw = toArray (coalesce (getProp section (js ''items'')) input);
                its = List.map_filter normalizeEducationItem itemsRaw
            in if its = [] then None
               else Some \<lparr>enabled = toBooleanValue (getProp section (js ''enabled'')) True,
                          items = its\<rparr>))"

definition normalizeSkillsSection :: "jsval \<Rightarrow> SkillsConfig option" where
  "normalizeSkillsSection input =
     (if \<not> truthy input then None
      else (let section = asRecord input;
                its = toStringArray (coalesce (getProp section (js ''items'')) input)
            in if its = [] then None
               else (let listStyle =
                           map_option toLowerCase (toStringValue (getProp section (js ''listStyle'')))
                     in Some \<lparr>skills_enabled = toBooleanValue (getProp section (js ''enabled'')) True,
                              skills_ordered =
                                (listStyle = Some (js ''ordered'')
                                 \<or> toBooleanValue (getProp section (js ''ordered'')) False),
                              skills_hideIndex =
                                toBooleanValue (getProp section (js ''hideIndex'')) False,
                              skills_items = its\<rparr>)))"

definition normalizeProjectItem :: "jsval \<Rightarrow> ProjectItem option" where
  "normalizeProjectItem item =
     (let source = asRecord item;
          name = toStringValue (getProp source (js ''name''))
      in if blank name then None
         else Some \<lparr>proj_name = the name,
                    proj_time = toStringValue (getProp source (js ''time'')),
                    proj_description = toStringValue (getProp source (js ''description'')),
                    proj_responsibilities =
                      toStringArray (getProp source (js ''responsibilities'')),
                    proj_techStack = normalizeTechStack (getProp source (js ''techStack''))\<rparr>)"

definition normalizeProjectsSection :: "jsval \<Rightarrow> ProjectItem ItemSection option" where
  "normalizeProjectsSection input =
     (if \<not> truthy input then None
      else (let section = asRecord input;
                itemsRaw = toArray (coalesce (getProp section (js ''items'')) input);
                its = List.map_filter normalizeProjectItem itemsRaw
            in if its = [] then None
               else Some \<lparr>enabled = toBooleanValue (getProp section (js ''enabled'')) True,
                          items = its\<rparr>))"

definition normalizeProfileSection :: "jsval \<Rightarrow> ProfileSection option" where
  "normalizeProfileSection input =
     (if \<not> truthy input then None
      else (let section = asRecord input;
                content = toStringValue (coalesce (getProp section (js ''content'')) input)
            in if blank content then None
               else Some \<lparr>profile_enabled =
                            toBooleanValue (getProp section (js ''enabled'')) True,
                          profile_content = the content\<rparr>))"

definition normalizeWorkItem :: "jsval \<Rightarrow> WorkItem option" where
  "normalizeWorkItem item =
     (let source = asRecord item;
          company = toStringValue (getProp source (js ''company''))
      in if blank company then None
         else Some \<lparr>work_company = the company,
                    work_time = toStringValue (getProp source (js ''time'')),
                    work_position = toStringValue (getProp source (js ''position'')),
                    work_achievements = toStringArray (getProp source (js ''achievements''))\<rparr>)"

definition normalizeWorkSection :: "jsval \<Rightarrow> WorkItem ItemSection option" where
  "normalizeWorkSection input =
     (if \<not> truthy input then None
      else (let section = asRecord input;
                itemsRaw = toArray (coalesce (getProp section (js ''items'')) input);
                its = List.map_filter normalizeWorkItem itemsRaw
            in if its = [] then None
               else Some \<lparr>enabled = toBooleanValue (getProp section (js ''enabled'')) True,
                          items = its\<rparr>))"

definition normalizeHonorItem :: "jsval \<Rightarrow> HonorItem option" where
  "normalizeHonorItem item =
     (let source = asRecord item;
          name = (case toStringValue (getProp source (js ''name'')) of
                    Some n \<Rightarrow> Some n
                  | None \<Rightarrow> toStringValue item)
      in if blank name then None
         else Some \<lparr>honor_name = the name,
                    honor_time = toStringValue (getProp source (js ''time''))\<rparr>)"

definition normalizeHonorsSection :: "jsval \<Rightarrow> HonorItem ItemSection option" where
  "normalizeHonorsSection input =
     (if \<not> truthy input then None
      else (let section = asRecord input;
                itemsRaw = toArray (coalesce (getProp section (js ''items'')) input);
                its = List.map_filter normalizeHonorItem itemsRaw
            in if its = [] then None
               else Some \<lparr>enabled = toBooleanValue (getProp section (js ''enabled'')) True,
                          items = its\<rparr>))"

definition normalizeOpenSourceItem :: "jsval \<Rightarrow> OpenSourceItem option" where
  "normalizeOpenSourceItem item =
     (let source = asRecord item;
          name = toStringValue (getProp source (js ''name''))
      in if blank name then None
         else Some \<lparr>os_name = the name,
                    os_url = toStringValue (getProp source (js ''url'')),
                    os_stars = toStringValue (getProp source (js ''stars'')),
                    os_description = toStringValue (getProp source (js ''description'')),
                    os_achievements = toStringArray (getProp source (js ''achievements''))\<rparr>)"

definition normalizeOpenSourceSection :: "jsval \<Rightarrow> OpenSourceItem ItemSection option" where
  "normalizeOpenSourceSection input =
     (if \<not> truthy input then None
      else (let section = asRecord input;
                itemsRaw = toArray (coalesce (getProp section (js ''items'')) input);
                its = List.map_filter normalizeOpenSourceItem itemsRaw
            in if its = [] then None
               else Some \<lparr>enabled = toBooleanValue (getProp section (js ''enabled'')) True,
                          items = its\<rparr>))"

text \<open>The label that \<open>normalizeLegacyProjects\<close> removes from a role.\<close>

definition legacyRolePrefix :: jsstring where
  "legacyRolePrefix = [0x540E, 0x7AEF, 0x5F00, 0x53D1, 0x20, 0x2022, 0x20]"

definition normalizeLegacyProject :: "jsval \<Rightarrow> ProjectItem option" where
  "normalizeLegacyProject item =
     (let source = asRecord item;
          name = toStringValue (getProp source (js ''name''))
      in if blank name then None
         else Some \<lparr>proj_name = the name,
                    proj_time =
                      map_option (removeFirst legacyRolePrefix)
                        (toStringValue (getProp source (js ''role''))),
                    proj_description = toStringValue (getProp source (js ''bg'')),
                    proj_responsibilities = toStringArray (getProp source (js ''des'')),
                    proj_techStack = normalizeTechStack (getProp source (js ''stack''))\<rparr>)"

definition normalizeLegacyProjects :: "jsval list \<Rightarrow> ProjectItem list" where
  "normalizeLegacyProjects its = List.map_filter normalizeLegacyProject its"

definition normalizeLegacyWorkItem :: "jsval \<Rightarrow> WorkItem option" where
  "normalizeLegacyWorkItem item =
     (let source = asRecord item;
          company = toStringValue (getProp source (js ''company''))
      in if blank company then None
         else Some \<lparr>work_company = the company,
                    work_time =
                      joinTimeRange (toStringValue (getProp source (js ''startDate'')))
                        (toStringValue (getProp source (js ''endDate''))),
                    work_position = toStringValue (getProp source (js ''position'')),
                    work_achievements =
                      toStringArray (getProp source (js ''responsibilities''))\<rparr>)"

definition normalizeLegacyWorkItems :: "jsval list \<Rightarrow> WorkItem list" where
  "normalizeLegacyWorkItems its = List.map_filter normalizeLegacyWorkItem its"

definition normalizeLink :: "jsval \<Rightarrow> ResumeLink option" where
  "normalizeLink item =
     (let source = asRecord item;
          label = toStringValue (getProp source (js ''label''));
          url = toStringValue (getProp source (js ''url''))
      in if blank label \<or> blank url then None
         else Some \<lparr>link_label = the label, link_url = the url\<rparr>)"

definition normalizeLinks :: "jsval list \<Rightarrow> ResumeLink list" where
  "normalizeLinks its = List.map_filter normalizeLink its"

definition normalizeLegacyAddressLinks ::
  "(jsstring \<times> jsval) list option \<Rightarrow> JsError + ResumeLink list" where
  "normalizeLegacyAddressLinks basicRec =
     (let city = toStringValue (getProp basicRec (js ''city''))
      in if blank city then Inr []
         else (case encodeURIComponent (the city) of
                 Inl e \<Rightarrow> Inl e
               | Inr q \<Rightarrow>
                   Inr [\<lparr>link_label = the city,
                         link_url = js ''https://maps.google.com/?q='' @ q\<rparr>]))"

fun normalizeEducationSummary ::
  "(jsstring \<times> jsval) list option \<Rightarrow> BasicEducationSummary option" where
  "normalizeEducationSummary None = None"
| "normalizeEducationSummary (Some ps) =
     Some \<lparr>sum_school = toStringValue (getProp (Some ps) (js ''school'')),
           sum_major = toStringValue (getProp (Some ps) (js ''major'')),
           sum_degree = toStringValue (getProp (Some ps) (js ''degree'')),
           sum_graduationYear = toStringValue (getProp (Some ps) (js ''graduationYear'')),
           sum_raw = toStringValue (getProp (Some ps) (js ''raw''))\<rparr>"

section \<open>The configuration normalisation engine\<close>

text \<open>The defaults \<^verbatim>\<open>'\<dots>'\<close> of the title and of the name, as code units.\<close>

definition defaultTitle :: jsstring where
  "defaultTitle = [0x4E2A, 0x4EBA, 0x7B80, 0x5386]"

definition defaultName :: jsstring where
  "defaultName = [0x672A, 0x547D, 0x540D]"

definition normalizeModernConfig :: "jsval \<Rightarrow> NormalizedResumeConfig" where
  "normalizeModernConfig data =
     (let siteObject = asRecord (field data (js ''site''));
          basicObject = asRecord (field data (js ''basic''));
          moduleTitles =
            spread MODULE_TITLES
              (normalizeModuleTitleMap (asRecord (getProp siteObject (js ''moduleTitles''))))
      in \<lparr>site =
            \<lparr>site_title = orElse (toStringValue (getProp siteObject (js ''title''))) defaultTitle,
             site_themeColor =
               normalizeColor
                 (orElse (toStringValue (getProp siteObject (js ''themeColor''))) (js ''#111111'')),
             site_pdfFileName =
               orElse (toStringValue (getProp siteObject (js ''pdfFileName''))) (js ''resume.pdf''),
             site_order = normalizeOrder (toStringArray (getProp siteObject (js ''order''))),
             site_moduleTitles = moduleTitles\<rparr>,
          basic =
            \<lparr>basic_name = orElse (toStringValue (getProp basicObject (js ''name''))) defaultName,
             basic_gender = toStringValue (getProp basicObject (js ''gender'')),
             basic_age = toStringValue (getProp basicObject (js ''age'')),
             basic_position = toStringValue (getProp basicObject (js ''position'')),
             basic_workPeriod =
               Some \<lparr>wp_start =
                       toStringValue
                         (getProp (asRecord (getProp basicObject (js ''workPeriod''))) (js ''start'')),
                     wp_end =
                       toStringValue
                         (getProp (asRecord (getProp basicObject (js ''workPeriod''))) (js ''end''))\<rparr>,
             basic_contacts =
               \<lparr>con_wechat =
                  toStringValue
                    (getProp (asRecord (getProp basicObject (js ''contacts''))) (js ''wechat'')),
                con_phone =
                  toStringValue
                    (getProp (asRecord (getProp basicObject (js ''contacts''))) (js ''phone'')),
                con_email =
                  toStringValue
                    (getProp (asRecord (getProp basicObject (js ''contacts''))) (js ''email''))\<rparr>,
             basic_educationSummary =
               normalizeEducationSummary (asRecord (getProp basicObject (js ''educationSummary''))),
             basic_addressLinks =
               normalizeLinks (toArray (getProp basicObject (js ''addressLinks'')))\<rparr>,
          education = normalizeEducationSection (field data (js ''education'')),
          skills = normalizeSkillsSection (field data (js ''skills'')),
          projects = normalizeProjectsSection (field data (js ''projects'')),
          profile = normalizeProfileSection (field data (js ''profile'')),
          work = normalizeWorkSection (field data (js ''work'')),
          honors = normalizeHonorsSection (field data (js ''honors'')),
          openSource = normalizeOpenSourceSection (field data (js ''openSource''))\<rparr>)"

text \<open>\<^verbatim>\<open>a ?? b\<close> where both are a string or \<^verbatim>\<open>undefined\<close>.\<close>

fun orElseOpt :: "'a option \<Rightarrow> 'a option \<Rightarrow> 'a option" where
  "orElseOpt (Some x) b = Some x"
| "orElseOpt None b = b"

text \<open>
  \<^verbatim>\<open>Object.keys(modulesFromConf ?? {})\<close>.
\<close>

fun objectKeys :: "(jsstring \<times> jsval) list option \<Rightarrow> jsstring list" where
  "objectKeys None = []"
| "objectKeys (Some ps) = map fst ps"

definition normalizeLegacyConfig :: "jsval \<Rightarrow> JsError + NormalizedResumeConfig" where
  "normalizeLegacyConfig data =
     (let conf = asRecord (field data (js ''conf''));
          basicLegacy = asRecord (field data (js ''basic''));
          modulesFromConf = asRecord (getProp conf (js ''modules''));
          overall = toStringValue (getProp basicLegacy (js ''overall''));
          workPeriod = parseWorkPeriodText overall;
          profileContent = toStringValue (field data (js ''evaluation''))
      in case normalizeLegacyAddressLinks basicLegacy of
           Inl e \<Rightarrow> Inl e
         | Inr links \<Rightarrow>
             Inr \<lparr>site =
                    \<lparr>site_title = orElse (toStringValue (getProp conf (js ''title''))) defaultTitle,
                     site_themeColor =
                       normalizeColor
                         (orElse (toStringValue (getProp conf (js ''mainThemeColor'')))
                            (js ''#111111'')),
                     site_pdfFileName =
                       orElse (toStringValue (getProp conf (js ''pdf''))) (js ''resume.pdf''),
                     site_order = normalizeOrder (objectKeys modulesFromConf),
                     site_moduleTitles =
                       spread MODULE_TITLES (normalizeModuleTitleMap modulesFromConf)\<rparr>,
                  basic =
                    \<lparr>basic_name =
                       orElse (toStringValue (getProp basicLegacy (js ''cnName''))) defaultName,
                     basic_gender = toStringValue (getProp basicLegacy (js ''sex'')),
                     basic_age = toStringValue (getProp basicLegacy (js ''birth'')),
                     basic_position = toStringValue (getProp basicLegacy (js ''objective'')),
                     basic_workPeriod = workPeriod,
                     basic_contacts =
                       \<lparr>con_wechat =
                          orElseOpt (toStringValue (getProp basicLegacy (js ''wechat'')))
                            (toStringValue (getProp basicLegacy (js ''wechatText''))),
                        con_phone =
                          orElseOpt (toStringValue (getProp basicLegacy (js ''phone'')))
                            (toStringValue (getProp basicLegacy (js ''phoneNumber''))),
                        con_email =
                          orElseOpt (toStringValue (getProp basicLegacy (js ''email'')))
                            (toStringValue (getProp basicLegacy (js ''emailText'')))\<rparr>,
                     basic_educationSummary =
                       (if truthy (getProp basicLegacy (js ''college''))
                        then Some \<lparr>sum_school = None, sum_major = None, sum_degree = None,
                                   sum_graduationYear = None,
                                   sum_raw = toStringValue (getProp basicLegacy (js ''college''))\<rparr>
                        else None),
                     basic_addressLinks = links\<rparr>,
                  education = None,
                  skills =
                    Some \<lparr>skills_enabled = True, skills_ordered = False, skills_hideIndex = False,
                          skills_items = toStringArray (field data (js ''skill''))\<rparr>,
                  projects =
                    Some \<lparr>enabled = True,
                          items = normalizeLegacyProjects (toArray (field data (js ''exp'')))\<rparr>,
                  profile =
                    (if blank profileContent then None
                     else Some \<lparr>profile_enabled = True, profile_content = the profileContent\<rparr>),
                  work =
                    Some \<lparr>enabled = True,
                          items =
                            normalizeLegacyWorkItems (toArray (field data (js ''workExperience'')))\<rparr>,
                  honors = normalizeHonorsSection (field data (js ''honors'')),
                  openSource = normalizeOpenSourceSection (field data (js ''openSource''))\<rparr>)"

text \<open>
  \<^verbatim>\<open>const data = (raw ?? {}) as Record<string, unknown>\<close> is a cast, not a check, so
  \<^verbatim>\<open>'conf' in data\<close> is applied to whatever \<open>raw\<close> is; \<^verbatim>\<open>&&\<close> asks for \<open>basic\<close> only
  when \<open>conf\<close> is there.
\<close>

definition normalizeConfig :: "jsval \<Rightarrow> JsError + NormalizedResumeConfig" where
  "normalizeConfig raw =
     (let data = coalesce raw (JObj []) in
      case hasProperty (js ''conf'') data of
        Inl e \<Rightarrow> Inl e
      | Inr hasConf \<Rightarrow>
          if hasConf then
            (case hasProperty (js ''basic'') data of
               Inl e \<Rightarrow> Inl e
             | Inr hasBasic \<Rightarrow>
                 if hasBasic then normalizeLegacyConfig data
                 else Inr (normalizeModernConfig data))
          else Inr (normalizeModernConfig data))"

section \<open>A document as an untyped value\<close>

text \<open>
  The canonical document is itself a JavaScript object, so it can be handed to
  \<^verbatim>\<open>normalizeConfig\<close> again. \<open>toRaw\<close> is that object as a value of type \<open>jsval\<close>: every
  field under its source name, \<^verbatim>\<open>undefined\<close> for an absent optional field.
\<close>

fun rawOpt :: "jsstring option \<Rightarrow> jsval" where
  "rawOpt None = JUndefined"
| "rawOpt (Some s) = JStr s"

fun rawAliasValue :: "AliasValue \<Rightarrow> jsval" where
  "rawAliasValue (Key k) = JStr (moduleKeyName k)"
| "rawAliasValue (Inherited n) = JBuiltin n"

definition rawStrings :: "jsstring list \<Rightarrow> jsval" where
  "rawStrings xs = JArr (map JStr xs)"

definition rawSite :: "SiteConfig \<Rightarrow> jsval" where
  "rawSite s =
     JObj [(js ''title'', JStr (site_title s)),
           (js ''themeColor'', JStr (site_themeColor s)),
           (js ''pdfFileName'', JStr (site_pdfFileName s)),
           (js ''order'', JArr (map rawAliasValue (site_order s))),
           (js ''moduleTitles'', JObj (map (\<lambda>(k, v). (k, JStr v)) (site_moduleTitles s)))]"

definition rawWorkPeriod :: "WorkPeriod \<Rightarrow> jsval" where
  "rawWorkPeriod w = JObj [(js ''start'', rawOpt (wp_start w)), (js ''end'', rawOpt (wp_end w))]"

definition rawContacts :: "Contacts \<Rightarrow> jsval" where
  "rawContacts c =
     JObj [(js ''wechat'', rawOpt (con_wechat c)),
           (js ''phone'', rawOpt (con_phone c)),
           (js ''email'', rawOpt (con_email c))]"

definition rawEducationSummary :: "BasicEducationSummary \<Rightarrow> jsval" where
  "rawEducationSummary e =
     JObj [(js ''school'', rawOpt (sum_school e)),
           (js ''major'', rawOpt (sum_major e)),
           (js ''degree'', rawOpt (sum_degree e)),
           (js ''graduationYear'', rawOpt (sum_graduationYear e)),
           (js ''raw'', rawOpt (sum_raw e))]"

definition rawLink :: "ResumeLink \<Rightarrow> jsval" where
  "rawLink l = JObj [(js ''label'', JStr (link_label l)), (js ''url'', JStr (link_url l))]"

fun rawMaybe :: "('a \<Rightarrow> jsval) \<Rightarrow> 'a option \<Rightarrow> jsval" where
  "rawMaybe f None = JUndefined"
| "rawMaybe f (Some x) = f x"

definition rawBasic :: "BasicConfig \<Rightarrow> jsval" where
  "rawBasic b =
     JObj [(js ''name'', JStr (basic_name b)),
           (js ''gender'', rawOpt (basic_gender b)),
           (js ''age'', rawOpt (basic_age b)),
           (js ''position'', rawOpt (basic_position b)),
           (js ''workPeriod'', rawMaybe rawWorkPeriod (basic_workPeriod b)),
           (js ''contacts'', rawContacts (basic_contacts b)),
           (js ''educationSummary'', rawMaybe rawEducationSummary (basic_educationSummary b)),
           (js ''addressLinks'', JArr (map rawLink (basic_addressLinks b)))]"

definition rawCourse :: "EducationCourse \<Rightarrow> jsval" where
  "rawCourse c =
     JObj [(js ''name'', JStr (course_name c)), (js ''credit'', rawOpt (course_credit c))]"

definition rawEducationItem :: "EducationItem \<Rightarrow> jsval" where
  "rawEducationItem e =
     JObj [(js ''school'', JStr (edu_school e)),
           (js ''start'', rawOpt (edu_start e)),
           (js ''end'', rawOpt (edu_end e)),
           (js ''gpa'', rawOpt (edu_gpa e)),
           (js ''major'', rawOpt (edu_major e)),
           (js ''courses'', JArr (map rawCourse (edu_courses e))),
           (js ''rank'', rawOpt (edu_rank e)),
           (js ''degree'', rawOpt (edu_degree e))]"

definition rawProjectItem :: "ProjectItem \<Rightarrow> jsval" where
  "rawProjectItem q =
     JObj [(js ''name'', JStr (proj_name q)),
           (js ''time'', rawOpt (proj_time q)),
           (js ''description'', rawOpt (proj_description q)),
           (js ''responsibilities'', rawStrings (proj_responsibilities q)),
           (js ''techStack'', rawStrings (proj_techStack q))]"

definition rawWorkItem :: "WorkItem \<Rightarrow> jsval" where
  "rawWorkItem w =
     JObj [(js ''company'', JStr (work_company w)),
           (js ''time'', rawOpt (work_time w)),
           (js ''position'', rawOpt (work_position w)),
           (js ''achievements'', rawStrings (work_achievements w))]"

definition rawHonorItem :: "HonorItem \<Rightarrow> jsval" where
  "rawHonorItem h =
     JObj [(js ''name'', JStr (honor_name h)), (js ''time'', rawOpt (honor_time h))]"

definition rawOpenSourceItem :: "OpenSourceItem \<Rightarrow> jsval" where
  "rawOpenSourceItem p =
     JObj [(js ''name'', JStr (os_name p)),
           (js ''url'', rawOpt (os_url p)),
           (js ''stars'', rawOpt (os_stars p)),
           (js ''description'', rawOpt (os_description p)),
           (js ''achievements'', rawStrings (os_achievements p))]"

definition rawItemSection :: "('a \<Rightarrow> jsval) \<Rightarrow> 'a ItemSection \<Rightarrow> jsval" where
  "rawItemSection f sec =
     JObj [(js ''enabled'', JBool (enabled sec)), (js ''items'', JArr (map f (items sec)))]"

definition rawSkills :: "SkillsConfig \<Rightarrow> jsval" where
  "rawSkills k =
     JObj [(js ''enabled'', JBool (skills_enabled k)),
           (js ''ordered'', JBool (skills_ordered k)),
           (js ''hideIndex'', JBool (skills_hideIndex k)),
           (js ''items'', rawStrings (skills_items k))]"

definition rawProfile :: "ProfileSection \<Rightarrow> jsval" where
  "rawProfile q =
     JObj [(js ''enabled'', JBool (profile_enabled q)),
           (js ''content'', JStr (profile_content q))]"

definition toRaw :: "NormalizedResumeConfig \<Rightarrow> jsval" where
  "toRaw d =
     JObj [(js ''site'', rawSite (site d)),
           (js ''basic'', rawBasic (basic d)),
           (js ''education'', rawMaybe (rawItemSection rawEducationItem) (education d)),
           (js ''skills'', rawMaybe rawSkills (skills d)),
           (js ''projects'', rawMaybe (rawItemSection rawProjectItem) (projects d)),
           (js ''profile'', rawMaybe rawProfile (profile d)),
           (js ''work'', rawMaybe (rawItemSection rawWorkItem) (work d)),
           (js ''honors'', rawMaybe (rawItemSection rawHonorItem) (honors d)),
           (js ''openSource'', rawMaybe (rawItemSection rawOpenSourceItem) (openSource d))]"

text \<open>
  The structural test of \<^verbatim>\<open>normalizeConfig\<close>: both marker keys are at the root.
\<close>

definition takesLegacyPath :: "jsval \<Rightarrow> bool" where
  "takesLegacyPath raw \<longleftrightarrow>
     hasProperty (js ''conf'') (coalesce raw (JObj [])) = Inr True
     \<and> hasProperty (js ''basic'') (coalesce raw (JObj [])) = Inr True"

text \<open>
  The form the specification gives for a stored colour: \<open>#\<close> and three or six
  hexadecimal digits.
\<close>

definition isHexDigit :: "16 word \<Rightarrow> bool" where
  "isHexDigit c \<longleftrightarrow>
     (0x30 \<le> c \<and> c \<le> 0x39) \<or> (0x41 \<le> c \<and> c \<le> 0x46) \<or> (0x61 \<le> c \<and> c \<le> 0x66)"

definition hexColourForm :: "jsstring \<Rightarrow> bool" where
  "hexColourForm s \<longleftrightarrow>
     take 1 s = js ''#'' \<and> (length s = 4 \<or> length s = 7) \<and> list_all isHexDigit (drop 1 s)"

section \<open>Conditions on an input\<close>

text \<open>
  Every number in the tree has a text without white space at its ends, as the text
  \<^verbatim>\<open>String(n)\<close> of a number has.
\<close>

fun numbersRendered :: "jsval \<Rightarrow> bool" where
  "numbersRendered (JNum r) = (trim r = r)"
| "numbersRendered (JArr xs) = (\<forall>x \<in> set xs. numbersRendered x)"
| "numbersRendered (JObj ps) = (\<forall>p \<in> set ps. numbersRendered (snd p))"
| "numbersRendered v = True"

text \<open>
  No entry of \<^verbatim>\<open>site.order\<close> and no key of \<^verbatim>\<open>site.moduleTitles\<close> cleans to
  \<open>constructor\<close>.
\<close>

definition constructorFree :: "jsval \<Rightarrow> bool" where
  "constructorFree raw \<longleftrightarrow>
     (let siteObject = asRecord (field (coalesce raw (JObj [])) (js ''site''))
      in (\<forall>k \<in> set (toStringArray (getProp siteObject (js ''order''))).
            cleanKey k \<noteq> js ''constructor'')
         \<and> (\<forall>k \<in> set (objectKeys (asRecord (getProp siteObject (js ''moduleTitles'')))).
              cleanKey k \<noteq> js ''constructor''))"

text \<open>
  A property of a title object: the name of a module key, with a text that is not empty
  and has no white space at its ends.
\<close>

definition titleEntry :: "jsstring \<times> jsstring \<Rightarrow> bool" where
  "titleEntry p \<longleftrightarrow> fst p \<in> range moduleKeyName \<and> snd p \<noteq> [] \<and> trim (snd p) = snd p"

text \<open>
  The list a section normaliser loops over, \<^verbatim>\<open>toArray(section?.items ?? input)\<close>, and the
  identifying field it reads from an item, \<^verbatim>\<open>toStringValue(source?.key)\<close>; for an honor
  the item itself stands in when it has no \<open>name\<close>.
\<close>

definition itemsRaw :: "jsval \<Rightarrow> jsval list" where
  "itemsRaw input = toArray (coalesce (getProp (asRecord input) (js ''items'')) input)"

definition requiredField :: "jsstring \<Rightarrow> jsval \<Rightarrow> jsstring option" where
  "requiredField key item = toStringValue (getProp (asRecord item) key)"

definition honorName :: "jsval \<Rightarrow> jsstring option" where
  "honorName item =
     (case requiredField (js ''name'') item of Some n \<Rightarrow> Some n | None \<Rightarrow> toStringValue item)"

section \<open>The pagination planner\<close>

text \<open>
  \<^verbatim>\<open>getPagedCuts\<close> and \<^verbatim>\<open>findLastSafeCut\<close> of \<^verbatim>\<open>src/main.ts\<close>. The pixel
  heights the exporter passes are integers (\<^verbatim>\<open>canvas.height\<close>, and
  \<^verbatim>\<open>Math.floor\<close> of the page height and of every block boundary), so they are
  \<open>int\<close> here. The list of safe cuts, which the source reads from the rendered page with
  \<^verbatim>\<open>collectSafeCuts\<close>, is an argument.
\<close>

text \<open>
  \<^verbatim>\<open>for (const cut of cuts) { if (cut < min) continue; if (cut > max) break; output = cut; }\<close>,
  with \<open>output\<close> as the accumulator; \<open>None\<close> is \<^verbatim>\<open>undefined\<close>.
\<close>

fun findLastSafeCutFrom :: "int option \<Rightarrow> int list \<Rightarrow> int \<Rightarrow> int \<Rightarrow> int option" where
  "findLastSafeCutFrom output [] mn mx = output"
| "findLastSafeCutFrom output (c # cuts) mn mx =
     (if c < mn then findLastSafeCutFrom output cuts mn mx
      else if c > mx then output
      else findLastSafeCutFrom (Some c) cuts mn mx)"

definition findLastSafeCut :: "int list \<Rightarrow> int \<Rightarrow> int \<Rightarrow> int option" where
  "findLastSafeCut cuts mn mx = findLastSafeCutFrom None cuts mn mx"

text \<open>
  \<^verbatim>\<open>Math.floor(pageHeightPx * 0.55)\<close> at an integer page height.
\<close>

definition minimumSegmentPx :: "int \<Rightarrow> int" where
  "minimumSegmentPx pageHeightPx = (pageHeightPx * 55) div 100"

text \<open>
  The \<^verbatim>\<open>while (cursor < totalHeightPx)\<close> loop. Nothing in the source bounds the number
  of rounds (with a page height of 0 the cursor never moves), so the loop is a partial
  function: \<open>None\<close> is a run that never returns.
\<close>

partial_function (option) pagedCutsLoop ::
  "int list \<Rightarrow> int \<Rightarrow> int \<Rightarrow> int \<Rightarrow> (int \<times> int) list \<Rightarrow> (int \<times> int) list option" where
  "pagedCutsLoop safeCuts totalHeightPx pageHeightPx cursor segments =
     (if cursor < totalHeightPx then
        (let target = cursor + pageHeightPx in
         if target \<ge> totalHeightPx then Some (segments @ [(cursor, totalHeightPx)])
         else
           (let candidate = findLastSafeCut safeCuts (cursor + minimumSegmentPx pageHeightPx) target;
                next0 = (case candidate of Some c \<Rightarrow> c | None \<Rightarrow> target);
                next = (if next0 \<le> cursor + 80 then min totalHeightPx target else next0)
            in pagedCutsLoop safeCuts totalHeightPx pageHeightPx next (segments @ [(cursor, next)])))
      else Some segments)"

definition getPagedCuts :: "int list \<Rightarrow> int \<Rightarrow> int \<Rightarrow> (int \<times> int) list option" where
  "getPagedCuts safeCuts totalHeightPx pageHeightPx =
     pagedCutsLoop safeCuts totalHeightPx pageHeightPx 0 []"

text \<open>
  A list of \<open>[start, end)\<close> ranges tiles \<open>[from, to)\<close>: every range is non-empty and starts
  where the one before it ended.
\<close>

fun tiles :: "int \<Rightarrow> (int \<times> int) list \<Rightarrow> int \<Rightarrow> bool" where
  "tiles from [] to = (from = to)"
| "tiles from ((s, e) # rest) to = (s = from \<and> s < e \<and> tiles e rest to)"

text \<open>
  The cursor after one round of the loop that does not end it (the value of \<^verbatim>\<open>next\<close>).
\<close>

definition nextCut :: "int list \<Rightarrow> int \<Rightarrow> int \<Rightarrow> int \<Rightarrow> int" where
  "nextCut safeCuts totalHeightPx pageHeightPx cursor =
     (let target = cursor + pageHeightPx;
          next0 = (case findLastSafeCut safeCuts (cursor + minimumSegmentPx pageHeightPx) target of
                     Some c \<Rightarrow> c | None \<Rightarrow> target)
      in if next0 \<le> cursor + 80 then min totalHeightPx target else next0)"

section \<open>Inputs of the examples\<close>

text \<open>The legacy document of the specification's example, as \<^verbatim>\<open>parseYaml\<close> returns it.\<close>

definition legacyExample :: jsval where
  "legacyExample =
     JObj [(js ''conf'', JObj [(js ''title'', JStr (js ''T''))]),
           (js ''basic'', JObj [(js ''cnName'', JStr (js ''N'')),
                               (js ''overall'', JStr (js ''2019.01~2021.06''))])]"

text \<open>A legacy document whose only project has no name.\<close>

definition legacyNamelessProject :: jsval where
  "legacyNamelessProject =
     JObj [(js ''conf'', JObj []),
           (js ''basic'', JObj []),
           (js ''exp'', JArr [JObj [(js ''role'', JStr (js ''dev''))]])]"

text \<open>A legacy document with a college and with a modern education section.\<close>

definition legacyWithEducation :: jsval where
  "legacyWithEducation =
     JObj [(js ''conf'', JObj []),
           (js ''basic'', JObj [(js ''college'', JStr (js ''MIT''))]),
           (js ''education'', JArr [JObj [(js ''school'', JStr (js ''MIT''))]])]"

text \<open>A modern document with two work entries, the second without a company.\<close>

definition modernTwoJobs :: jsval where
  "modernTwoJobs =
     JObj [(js ''work'', JArr [JObj [(js ''company'', JStr (js ''Acme''))],
                              JObj [(js ''position'', JStr (js ''dev''))]])]"

text \<open>A modern document whose module order names \<open>constructor\<close>.\<close>

definition modernConstructorOrder :: jsval where
  "modernConstructorOrder =
     JObj [(js ''site'', JObj [(js ''order'', JArr [JStr (js ''constructor'')])])]"

text \<open>A modern document with a theme colour written without \<open>#\<close>.\<close>

definition modernShortColour :: jsval where
  "modernShortColour = JObj [(js ''site'', JObj [(js ''themeColor'', JStr (js '' 0af ''))])]"

section \<open>Facts about the pagination planner\<close>

lemma findLastSafeCutFrom_range:
  "findLastSafeCutFrom out cuts mn mx = Some c \<Longrightarrow>
     out = Some c \<or> (c \<in> set cuts \<and> mn \<le> c \<and> c \<le> mx)"
proof (induction cuts arbitrary: out)
  case Nil
  then show ?case by simp
next
  case (Cons a cuts)
  show ?case
  proof (cases "a < mn")
    case True
    with Cons.prems have "findLastSafeCutFrom out cuts mn mx = Some c" by simp
    from Cons.IH [OF this] show ?thesis by auto
  next
    case False
    show ?thesis
    proof (cases "mx < a")
      case True
      with False Cons.prems show ?thesis by simp
    next
      case inr: False
      with False Cons.prems have "findLastSafeCutFrom (Some a) cuts mn mx = Some c" by simp
      from Cons.IH [OF this] False inr show ?thesis by auto
    qed
  qed
qed

lemma findLastSafeCut_range:
  "findLastSafeCut cuts mn mx = Some c \<Longrightarrow> c \<in> set cuts \<and> mn \<le> c \<and> c \<le> mx"
  using findLastSafeCutFrom_range [of None cuts mn mx c] by (simp add: findLastSafeCut_def)

text \<open>
  On a sorted list the search returns the last, that is the largest, offset between the
  two bounds, and \<^verbatim>\<open>undefined\<close> when there is none.
\<close>

lemma findLastSafeCutFrom_sorted:
  "sorted cuts \<Longrightarrow>
     findLastSafeCutFrom out cuts mn mx =
       (let inRange = filter (\<lambda>c. mn \<le> c \<and> c \<le> mx) cuts
        in if inRange = [] then out else Some (last inRange))"
proof (induction cuts arbitrary: out)
  case Nil
  then show ?case by simp
next
  case (Cons a cuts)
  then have s: "sorted cuts" and le: "\<forall>c \<in> set cuts. a \<le> c" by simp_all
  show ?case
  proof (cases "a < mn")
    case True
    with Cons.IH [OF s] show ?thesis by (simp add: Let_def)
  next
    case False
    show ?thesis
    proof (cases "mx < a")
      case True
      with le have "filter (\<lambda>c. mn \<le> c \<and> c \<le> mx) cuts = []"
        by (auto simp: filter_empty_conv)
      with True False show ?thesis by (simp add: Let_def)
    next
      case inr: False
      with False Cons.IH [OF s, of "Some a"] show ?thesis by (simp add: Let_def)
    qed
  qed
qed

lemma findLastSafeCut_sorted:
  "sorted cuts \<Longrightarrow>
     findLastSafeCut cuts mn mx =
       (let inRange = filter (\<lambda>c. mn \<le> c \<and> c \<le> mx) cuts
        in if inRange = [] then None else Some (last inRange))"
  by (simp add: findLastSafeCut_def findLastSafeCutFrom_sorted)

lemma nextCut_bounds:
  assumes "0 < page" "cursor + page < tot"
  shows "cursor < nextCut cuts tot page cursor \<and> nextCut cuts tot page cursor \<le> cursor + page"
proof (cases "findLastSafeCut cuts (cursor + minimumSegmentPx page) (cursor + page)")
  case None
  with assms show ?thesis by (simp add: nextCut_def Let_def)
next
  case (Some c)
  from findLastSafeCut_range [OF Some] have "c \<le> cursor + page" by simp
  with Some assms show ?thesis by (simp add: nextCut_def Let_def)
qed

lemma pagedCutsLoop_step:
  "pagedCutsLoop cuts tot page cursor segs =
     (if cursor < tot then
        if cursor + page \<ge> tot then Some (segs @ [(cursor, tot)])
        else pagedCutsLoop cuts tot page (nextCut cuts tot page cursor)
               (segs @ [(cursor, nextCut cuts tot page cursor)])
      else Some segs)"
  by (subst pagedCutsLoop.simps) (simp add: nextCut_def Let_def)

lemma tiles_snoc: "tiles a segs b \<Longrightarrow> b < c \<Longrightarrow> tiles a (segs @ [(b, c)]) c"
  by (induction a segs b rule: tiles.induct) auto

text \<open>
  With a positive page height the loop returns: the distance from the cursor to the end of
  the document shrinks in every round.
\<close>

lemma pagedCutsLoop_tiles:
  assumes "0 < page"
  shows "cursor < tot \<Longrightarrow> tiles start segs cursor \<Longrightarrow>
     \<exists>r. pagedCutsLoop cuts tot page cursor segs = Some r \<and> r \<noteq> [] \<and> tiles start r tot"
proof (induction "nat (tot - cursor)" arbitrary: cursor segs rule: less_induct)
  case less
  show ?case
  proof (cases "cursor + page \<ge> tot")
    case True
    with less.prems show ?thesis
      by (subst pagedCutsLoop_step) (simp add: tiles_snoc)
  next
    case False
    let ?n = "nextCut cuts tot page cursor"
    from False assms have b: "cursor < ?n" "?n \<le> cursor + page"
      using nextCut_bounds [of page cursor tot cuts] by simp_all
    with False have lt: "?n < tot" by simp
    have m: "nat (tot - ?n) < nat (tot - cursor)" using b lt by simp
    have t: "tiles start (segs @ [(cursor, ?n)]) ?n"
      using less.prems(2) b(1) by (rule tiles_snoc)
    from less.hyps [OF m lt t] obtain r where
      "pagedCutsLoop cuts tot page ?n (segs @ [(cursor, ?n)]) = Some r" "r \<noteq> []" "tiles start r tot"
      by blast
    with less.prems False show ?thesis
      by (subst pagedCutsLoop_step) simp
  qed
qed

lemma tiles_explicit:
  "tiles a segs b \<Longrightarrow> segs \<noteq> [] \<Longrightarrow>
     fst (hd segs) = a \<and> snd (last segs) = b
     \<and> (\<forall>i. Suc i < length segs \<longrightarrow> fst (segs ! Suc i) = snd (segs ! i))
     \<and> (\<forall>i < length segs. fst (segs ! i) < snd (segs ! i))"
proof (induction a segs b rule: tiles.induct)
  case (1 a b)
  then show ?case by simp
next
  case (2 a s e rest b)
  show ?case
  proof (cases rest)
    case Nil
    with 2 show ?thesis by simp
  next
    case (Cons p ps)
    with 2 have ih: "fst (hd rest) = e" "snd (last rest) = b"
      "\<forall>i. Suc i < length rest \<longrightarrow> fst (rest ! Suc i) = snd (rest ! i)"
      "\<forall>i < length rest. fst (rest ! i) < snd (rest ! i)" by simp_all
    have "fst (hd ((s, e) # rest)) = a" using 2 by simp
    moreover have "snd (last ((s, e) # rest)) = b" using ih Cons by simp
    moreover have "\<forall>i. Suc i < length ((s, e) # rest) \<longrightarrow>
        fst (((s, e) # rest) ! Suc i) = snd (((s, e) # rest) ! i)"
    proof (intro allI impI)
      fix i assume "Suc i < length ((s, e) # rest)"
      then show "fst (((s, e) # rest) ! Suc i) = snd (((s, e) # rest) ! i)"
        using ih Cons by (cases i) (simp_all add: hd_conv_nth)
    qed
    moreover have "\<forall>i < length ((s, e) # rest). fst (((s, e) # rest) ! i) < snd (((s, e) # rest) ! i)"
    proof (intro allI impI)
      fix i assume "i < length ((s, e) # rest)"
      then show "fst (((s, e) # rest) ! i) < snd (((s, e) # rest) ! i)"
        using ih 2 by (cases i) simp_all
    qed
    ultimately show ?thesis by blast
  qed
qed

text \<open>
  Claim C3. For a document height and a page height that are both positive, and any list
  of safe cuts (sorted or not), \<open>getPagedCuts\<close> returns, and the segments it returns are
  a partition of \<open>[0, totalHeight)\<close> in order: there is at least one, the first starts at
  0, the last ends at the document height, each starts where the one before it ended, and
  each has its end after its start.
\<close>

theorem getPagedCuts_partition:
  assumes "0 < tot" "0 < page"
  shows "\<exists>segs. getPagedCuts cuts tot page = Some segs \<and> segs \<noteq> []
           \<and> fst (hd segs) = 0 \<and> snd (last segs) = tot
           \<and> (\<forall>i. Suc i < length segs \<longrightarrow> fst (segs ! Suc i) = snd (segs ! i))
           \<and> (\<forall>i < length segs. fst (segs ! i) < snd (segs ! i))"
proof -
  from pagedCutsLoop_tiles [OF assms(2) assms(1), of 0 "[]" cuts]
  obtain segs where "getPagedCuts cuts tot page = Some segs" "segs \<noteq> []" "tiles 0 segs tot"
    by (auto simp: getPagedCuts_def)
  with tiles_explicit [of 0 segs tot] show ?thesis by blast
qed

theorem getPagedCuts_partition_witness:
  "(0::int) < 1000 \<and> (0::int) < 400
   \<and> getPagedCuts [0, 300, 700, 1000] 1000 400 = Some [(0, 300), (300, 700), (700, 1000)]"
  using getPagedCuts_partition [of 1000 400 "[0, 300, 700, 1000]"]
  by (simp add: getPagedCuts_def pagedCutsLoop.simps findLastSafeCut_def minimumSegmentPx_def)

text \<open>
  Claim C4, as stated: with the safe cuts 0, 400, 820, 1500, a page height of 800 and a
  document height of 1500 the first cut is at 820. It is not: the first segment ends at
  another offset.
\<close>

theorem first_cut_820_counterexample:
  "getPagedCuts [0, 400, 820, 1500] 1500 800 \<noteq> None
   \<and> snd (hd (the (getPagedCuts [0, 400, 820, 1500] 1500 800))) \<noteq> 820"
  by (simp add: getPagedCuts_def pagedCutsLoop.simps findLastSafeCut_def minimumSegmentPx_def)

text \<open>
  Claim C4, amended. With these inputs the minimum segment is 440 and no safe cut lies
  between 440 and 800 (400 is below, 820 is above), so the first segment ends at the naive
  target 800, and the plan is \<open>[0, 800)\<close>, \<open>[800, 1500)\<close>.
\<close>

theorem first_cut_naive_target:
  "minimumSegmentPx 800 = 440
   \<and> findLastSafeCut [0, 400, 820, 1500] (0 + minimumSegmentPx 800) (0 + 800) = None
   \<and> getPagedCuts [0, 400, 820, 1500] 1500 800 = Some [(0, 800), (800, 1500)]"
  by (simp add: getPagedCuts_def pagedCutsLoop.simps findLastSafeCut_def minimumSegmentPx_def)

text \<open>
  Claim C8, as stated: whenever the document height is at most the page height there is
  exactly one segment. A document of height 0 has none: the loop is not entered.
\<close>

theorem single_segment_counterexample:
  "(0::int) \<le> 800 \<and> getPagedCuts [0] 0 800 = Some []"
  by (simp add: getPagedCuts_def pagedCutsLoop.simps)

text \<open>
  Claim C8, amended. For a positive document height that is at most the page height
  (equal to it included), \<open>getPagedCuts\<close> returns the one segment \<open>[0, totalHeight)\<close>,
  whatever the safe cuts are.
\<close>

theorem single_segment:
  assumes "0 < tot" "tot \<le> page"
  shows "getPagedCuts cuts tot page = Some [(0, tot)]"
  unfolding getPagedCuts_def using assms by (subst pagedCutsLoop_step) simp

theorem single_segment_witness:
  "(0::int) < 800 \<and> (800::int) \<le> 800 \<and> getPagedCuts [0, 350, 800] 800 800 = Some [(0, 800)]"
  using single_segment [of 800 800 "[0, 350, 800]"] by simp

text \<open>A document whose height is not positive has no segment: the loop is not entered.\<close>

lemma no_segment: "tot \<le> 0 \<Longrightarrow> getPagedCuts cuts tot page = Some []"
  unfolding getPagedCuts_def by (subst pagedCutsLoop_step) simp

section \<open>Facts about the alias and order resolver\<close>

lemma set_map_filter: "set (List.map_filter f xs) = {y. \<exists>x \<in> set xs. f x = Some y}"
  by (induction xs) (auto simp: map_filter_simps split: option.splits)

lemma remdups_append_dup: "v \<in> set B \<Longrightarrow> remdups (A @ v # B) = remdups (A @ B)"
  by (induction A) auto

text \<open>
  The first loop keeps the first occurrence of every resolved entry, in the order of the
  input.
\<close>

lemma orderScan_first_seen:
  "distinct out \<Longrightarrow>
     orderScan out xs =
       rev (remdups (rev (out @ List.map_filter (\<lambda>x. normalizeModuleKey (Some x)) xs)))"
proof (induction xs arbitrary: out)
  case Nil
  then show ?case by (simp add: map_filter_simps distinct_remdups_id)
next
  case (Cons x xs)
  show ?case
  proof (cases "normalizeModuleKey (Some x)")
    case None
    with Cons show ?thesis by (simp add: map_filter_simps)
  next
    case (Some v)
    show ?thesis
    proof (cases "v \<in> set out")
      case True
      with Some Cons show ?thesis by (simp add: map_filter_simps remdups_append_dup)
    next
      case False
      with Cons.prems have "distinct (out @ [v])" by simp
      from Cons.IH [OF this] Some False show ?thesis by (simp add: map_filter_simps)
    qed
  qed
qed

text \<open>The second loop appends the keys that are missing, in the default order.\<close>

lemma orderFill_append:
  "distinct ks \<Longrightarrow> orderFill out ks = out @ filter (\<lambda>v. v \<notin> set out) (map Key ks)"
proof (induction ks arbitrary: out)
  case Nil
  then show ?case by simp
next
  case (Cons k ks)
  then have "filter (\<lambda>v. v \<notin> set (out @ [Key k])) (map Key ks)
      = filter (\<lambda>v. v \<notin> set out) (map Key ks)"
    by (intro filter_cong) auto
  with Cons show ?case by simp
qed

lemma distinct_DEFAULT_ORDER: "distinct DEFAULT_ORDER"
  by (simp add: DEFAULT_ORDER_def)

lemma set_DEFAULT_ORDER: "set DEFAULT_ORDER = UNIV"
proof -
  have "k \<in> set DEFAULT_ORDER" for k by (cases k) (simp_all add: DEFAULT_ORDER_def)
  then show ?thesis by auto
qed

lemma normalizeOrder_shape:
  "normalizeOrder order =
     (let seen = rev (remdups (rev (List.map_filter (\<lambda>x. normalizeModuleKey (Some x))
                   (if order \<noteq> [] then order else map moduleKeyName DEFAULT_ORDER))))
      in seen @ filter (\<lambda>v. v \<notin> set seen) (map Key DEFAULT_ORDER))"
proof -
  define src where "src = (if order \<noteq> [] then order else map moduleKeyName DEFAULT_ORDER)"
  have "orderScan [] src
      = rev (remdups (rev (List.map_filter (\<lambda>x. normalizeModuleKey (Some x)) src)))"
    using orderScan_first_seen [of "[]" src] by simp
  then show ?thesis
    unfolding normalizeOrder_def Let_def src_def [symmetric]
    by (simp only: orderFill_append [OF distinct_DEFAULT_ORDER])
qed

lemma distinct_normalizeOrder: "distinct (normalizeOrder order)"
  unfolding normalizeOrder_shape Let_def
  using distinct_DEFAULT_ORDER by (auto simp: distinct_map inj_on_def)

lemma set_normalizeOrder:
  "set (normalizeOrder order) =
     Key ` set DEFAULT_ORDER
     \<union> {v. \<exists>x \<in> set (if order \<noteq> [] then order else map moduleKeyName DEFAULT_ORDER).
            normalizeModuleKey (Some x) = Some v}"
  unfolding normalizeOrder_shape Let_def
  by (auto simp: set_map_filter simp del: normalizeModuleKey.simps)

text \<open>
  A cleaned key has no underscore and no capital letter, so \<open>constructor\<close> is the only
  member of \<^verbatim>\<open>Object.prototype\<close> it can name.
\<close>

lemma lowerUnit_not_upper:
  "lowerUnit c \<noteq> 0x5F \<or> c = 0x5F"
  "\<not> (0x41 \<le> lowerUnit c \<and> lowerUnit c \<le> 0x5A)"
  unfolding lowerUnit_def by (auto; unat_arith)+

lemma cleanKey_units:
  "c \<in> set (cleanKey x) \<Longrightarrow> c \<noteq> 0x5F \<and> \<not> (0x41 \<le> c \<and> c \<le> 0x5A)"
  using lowerUnit_not_upper by (auto simp: cleanKey_def toLowerCase_def)

lemma cleanKey_inherited:
  assumes "cleanKey x \<in> set objectPrototypeMembers"
  shows "cleanKey x = js ''constructor''"
proof (rule ccontr)
  assume n: "cleanKey x \<noteq> js ''constructor''"
  have u: "(0x5F::16 word) \<notin> set (cleanKey x)" using cleanKey_units [of "0x5F" x] by auto
  have O: "(0x4F::16 word) \<notin> set (cleanKey x)" using cleanKey_units [of "0x4F" x] by auto
  have P: "(0x50::16 word) \<notin> set (cleanKey x)" using cleanKey_units [of "0x50" x] by auto
  have S: "(0x53::16 word) \<notin> set (cleanKey x)" using cleanKey_units [of "0x53" x] by auto
  have L: "(0x4C::16 word) \<notin> set (cleanKey x)" using cleanKey_units [of "0x4C" x] by auto
  have I: "(0x49::16 word) \<notin> set (cleanKey x)" using cleanKey_units [of "0x49" x] by auto
  from assms n u O P S L I show False
    by (auto simp: objectPrototypeMembers_def)
qed

lemma normalizeModuleKey_inherited:
  "normalizeModuleKey (Some x) = Some (Inherited n) \<Longrightarrow> cleanKey x = js ''constructor''"
  using cleanKey_inherited [of x]
  by (auto simp: MODULE_ALIAS_get_def split: if_splits option.splits)

lemma normalizeModuleKey_moduleKeyName: "normalizeModuleKey (Some (moduleKeyName k)) = Some (Key k)"
  by (cases k)
     (simp_all add: MODULE_ALIAS_get_def MODULE_ALIAS_def cleanKey_def toLowerCase_def
        lowerUnit_def isWhiteSpace_def)

text \<open>
  For every input, the module keys in the resolved order are the seven keys, each once.
\<close>

lemma normalizeOrder_keys:
  "mset (filter (\<lambda>v. v \<in> range Key) (normalizeOrder order)) = mset (map Key DEFAULT_ORDER)"
proof -
  have "distinct (filter (\<lambda>v. v \<in> range Key) (normalizeOrder order))"
    using distinct_normalizeOrder by simp
  moreover have "set (filter (\<lambda>v. v \<in> range Key) (normalizeOrder order))
      = set (map Key DEFAULT_ORDER)"
    unfolding set_filter set_normalizeOrder by (auto simp: set_DEFAULT_ORDER)
  moreover have "distinct (map Key DEFAULT_ORDER)"
    using distinct_DEFAULT_ORDER by (simp add: distinct_map inj_on_def)
  ultimately show ?thesis
    using set_eq_iff_mset_eq_distinct by blast
qed

text \<open>
  When no entry of the input cleans to \<open>constructor\<close>, the resolved order is a permutation
  of the seven keys.
\<close>

lemma normalizeOrder_permutation:
  assumes "\<forall>x \<in> set order. cleanKey x \<noteq> js ''constructor''"
  shows "mset (normalizeOrder order) = mset (map Key DEFAULT_ORDER)"
proof -
  define src where "src = (if order \<noteq> [] then order else map moduleKeyName DEFAULT_ORDER)"
  have "v \<in> Key ` set DEFAULT_ORDER"
    if "x \<in> set src" and "normalizeModuleKey (Some x) = Some v" for x v
  proof (cases v)
    case (Key k)
    then show ?thesis by (simp add: set_DEFAULT_ORDER)
  next
    case (Inherited n)
    with that(2) have c: "cleanKey x = js ''constructor''"
      by (simp only: normalizeModuleKey_inherited)
    show ?thesis
    proof (cases "order \<noteq> []")
      case True
      with that(1) assms c show ?thesis by (auto simp: src_def)
    next
      case False
      with that(1) obtain k where "x = moduleKeyName k" by (auto simp: src_def)
      with that(2) Inherited show ?thesis by (simp only: normalizeModuleKey_moduleKeyName) simp
    qed
  qed
  then have "{v. \<exists>x \<in> set src. normalizeModuleKey (Some x) = Some v} \<subseteq> Key ` set DEFAULT_ORDER"
    by blast
  then have "set (normalizeOrder order) = set (map Key DEFAULT_ORDER)"
    unfolding set_normalizeOrder src_def [symmetric] by (simp add: Un_absorb2)
  moreover have "distinct (map Key DEFAULT_ORDER)"
    using distinct_DEFAULT_ORDER by (simp add: distinct_map inj_on_def)
  ultimately show ?thesis
    using distinct_normalizeOrder set_eq_iff_mset_eq_distinct by blast
qed

text \<open>
  Claim C5: for every list of strings \<open>normalizeOrder\<close> returns a permutation of the seven
  module identifiers. The code at the input \<^verbatim>\<open>['constructor']\<close>: the read
  \<^verbatim>\<open>MODULE_ALIAS['constructor']\<close> finds \<^verbatim>\<open>Object.prototype.constructor\<close>, which counts as
  true and is pushed, so the result has eight entries and the first is not a module
  identifier.
\<close>

theorem normalizeOrder_constructor:
  "normalizeOrder [js ''constructor''] =
     [Inherited (js ''constructor''), Key Education, Key Skills, Key Projects, Key Profile,
      Key Work, Key Honors, Key OpenSource]
   \<and> length (normalizeOrder [js ''constructor'']) = 8"
  by (simp add: normalizeOrder_def DEFAULT_ORDER_def MODULE_ALIAS_get_def MODULE_ALIAS_def
        cleanKey_def toLowerCase_def lowerUnit_def isWhiteSpace_def objectPrototypeMembers_def)

section \<open>Facts about the normalisation engine\<close>

lemma blank_the: "\<not> blank x \<Longrightarrow> the x \<noteq> []"
  by (cases x) simp_all

lemma normalizeEducationItem_school: "normalizeEducationItem v = Some i \<Longrightarrow> edu_school i \<noteq> []"
  by (auto simp: normalizeEducationItem_def Let_def blank_the split: if_splits)

lemma normalizeProjectItem_name: "normalizeProjectItem v = Some i \<Longrightarrow> proj_name i \<noteq> []"
  by (auto simp: normalizeProjectItem_def Let_def blank_the split: if_splits)

lemma normalizeWorkItem_company: "normalizeWorkItem v = Some i \<Longrightarrow> work_company i \<noteq> []"
  by (auto simp: normalizeWorkItem_def Let_def blank_the split: if_splits)

lemma normalizeHonorItem_name: "normalizeHonorItem v = Some i \<Longrightarrow> honor_name i \<noteq> []"
  by (auto simp: normalizeHonorItem_def Let_def blank_the split: if_splits)

lemma normalizeOpenSourceItem_name: "normalizeOpenSourceItem v = Some i \<Longrightarrow> os_name i \<noteq> []"
  by (auto simp: normalizeOpenSourceItem_def Let_def blank_the split: if_splits)

lemma normalizeLegacyProject_name: "normalizeLegacyProject v = Some i \<Longrightarrow> proj_name i \<noteq> []"
  by (auto simp: normalizeLegacyProject_def Let_def blank_the split: if_splits)

lemma normalizeLegacyWorkItem_company:
  "normalizeLegacyWorkItem v = Some i \<Longrightarrow> work_company i \<noteq> []"
  by (auto simp: normalizeLegacyWorkItem_def Let_def blank_the split: if_splits)

lemma toStringArray_nonempty: "s \<in> set (toStringArray v) \<Longrightarrow> s \<noteq> []"
  by (cases v) (auto split: option.splits if_splits)

lemma normalizeEducationSection_items:
  "normalizeEducationSection v = Some s \<Longrightarrow>
     items s \<noteq> [] \<and> (\<forall>i \<in> set (items s). edu_school i \<noteq> [])"
  by (auto simp: normalizeEducationSection_def Let_def set_map_filter
        dest: normalizeEducationItem_school split: if_splits)

lemma normalizeProjectsSection_items:
  "normalizeProjectsSection v = Some s \<Longrightarrow>
     items s \<noteq> [] \<and> (\<forall>i \<in> set (items s). proj_name i \<noteq> [])"
  by (auto simp: normalizeProjectsSection_def Let_def set_map_filter
        dest: normalizeProjectItem_name split: if_splits)

lemma normalizeWorkSection_items:
  "normalizeWorkSection v = Some s \<Longrightarrow>
     items s \<noteq> [] \<and> (\<forall>i \<in> set (items s). work_company i \<noteq> [])"
  by (auto simp: normalizeWorkSection_def Let_def set_map_filter
        dest: normalizeWorkItem_company split: if_splits)

lemma normalizeHonorsSection_items:
  "normalizeHonorsSection v = Some s \<Longrightarrow>
     items s \<noteq> [] \<and> (\<forall>i \<in> set (items s). honor_name i \<noteq> [])"
  by (auto simp: normalizeHonorsSection_def Let_def set_map_filter
        dest: normalizeHonorItem_name split: if_splits)

lemma normalizeOpenSourceSection_items:
  "normalizeOpenSourceSection v = Some s \<Longrightarrow>
     items s \<noteq> [] \<and> (\<forall>i \<in> set (items s). os_name i \<noteq> [])"
  by (auto simp: normalizeOpenSourceSection_def Let_def set_map_filter
        dest: normalizeOpenSourceItem_name split: if_splits)

lemma normalizeSkillsSection_items:
  "normalizeSkillsSection v = Some s \<Longrightarrow>
     skills_items s \<noteq> [] \<and> (\<forall>i \<in> set (skills_items s). i \<noteq> [])"
  by (auto simp: normalizeSkillsSection_def Let_def dest: toStringArray_nonempty split: if_splits)

text \<open>The three ways \<open>normalizeConfig\<close> can go.\<close>

lemma normalizeConfig_cases:
  "normalizeConfig raw =
     (if takesLegacyPath raw then normalizeLegacyConfig (coalesce raw (JObj []))
      else if hasProperty (js ''conf'') (coalesce raw (JObj [])) = Inl TypeError then Inl TypeError
      else Inr (normalizeModernConfig (coalesce raw (JObj []))))"
  by (cases "coalesce raw (JObj [])")
     (auto simp: normalizeConfig_def takesLegacyPath_def Let_def split: sum.splits)

text \<open>
  \<^verbatim>\<open>null\<close>, \<^verbatim>\<open>undefined\<close> and an array are normalised as the empty record is.
\<close>

lemma normalizeConfig_empty_document:
  "normalizeConfig JUndefined = normalizeConfig (JObj [])"
  "normalizeConfig JNull = normalizeConfig (JObj [])"
  "normalizeConfig (JArr xs) = normalizeConfig (JObj [])"
  by (simp_all add: normalizeConfig_def normalizeModernConfig_def)

text \<open>
  Claim C1: \<open>normalizeConfig\<close> returns a document for every input, a scalar included. The
  code at a number, a string or a boolean: \<^verbatim>\<open>raw ?? {}\<close> keeps the scalar and
  \<^verbatim>\<open>'conf' in data\<close> throws a \<^verbatim>\<open>TypeError\<close>.
\<close>

theorem normalizeConfig_scalar_throws:
  "normalizeConfig (JNum r) = Inl TypeError
   \<and> normalizeConfig (JStr s) = Inl TypeError
   \<and> normalizeConfig (JBool b) = Inl TypeError"
  by (simp add: normalizeConfig_def)

lemmas evaluation =
  normalizeConfig_def normalizeLegacyConfig_def normalizeModernConfig_def
  normalizeLegacyAddressLinks_def takesLegacyPath_def Let_def trim_def isWhiteSpace_def

text \<open>
  What a loop with \<^verbatim>\<open>continue\<close> keeps: the entries of the items that have the field, in
  the order of the input.
\<close>

lemma map_filter_entries:
  assumes "\<And>x. (f x = None) = b x" and "\<And>x y. f x = Some y \<Longrightarrow> g y = k x"
  shows "map g (List.map_filter f xs) = map k (filter (\<lambda>x. \<not> b x) xs)"
    and "(List.map_filter f xs = []) = (\<forall>x \<in> set xs. b x)"
proof -
  show "map g (List.map_filter f xs) = map k (filter (\<lambda>x. \<not> b x) xs)"
  proof (induction xs)
    case Nil
    then show ?case by simp
  next
    case (Cons x xs)
    show ?case
    proof (cases "f x")
      case None
      with assms(1) [of x] Cons show ?thesis by simp
    next
      case (Some y)
      with assms(1) [of x] assms(2) [of x y] Cons show ?thesis by simp
    qed
  qed
  show "(List.map_filter f xs = []) = (\<forall>x \<in> set xs. b x)"
  proof (induction xs)
    case Nil
    then show ?case by simp
  next
    case (Cons x xs)
    show ?case
    proof (cases "f x")
      case None
      with assms(1) [of x] Cons show ?thesis by simp
    next
      case (Some y)
      with assms(1) [of x] show ?thesis by simp
    qed
  qed
qed

lemma normalizeEducationItem_field:
  "(normalizeEducationItem i = None) = blank (requiredField (js ''school'') i)"
  "normalizeEducationItem i = Some e \<Longrightarrow> edu_school e = the (requiredField (js ''school'') i)"
  by (auto simp: normalizeEducationItem_def requiredField_def Let_def split: if_splits)

lemma normalizeProjectItem_field:
  "(normalizeProjectItem i = None) = blank (requiredField (js ''name'') i)"
  "normalizeProjectItem i = Some e \<Longrightarrow> proj_name e = the (requiredField (js ''name'') i)"
  by (auto simp: normalizeProjectItem_def requiredField_def Let_def split: if_splits)

lemma normalizeWorkItem_field:
  "(normalizeWorkItem i = None) = blank (requiredField (js ''company'') i)"
  "normalizeWorkItem i = Some e \<Longrightarrow> work_company e = the (requiredField (js ''company'') i)"
  by (auto simp: normalizeWorkItem_def requiredField_def Let_def split: if_splits)

lemma normalizeHonorItem_field:
  "(normalizeHonorItem i = None) = blank (honorName i)"
  "normalizeHonorItem i = Some e \<Longrightarrow> honor_name e = the (honorName i)"
  by (auto simp: normalizeHonorItem_def honorName_def requiredField_def Let_def split: if_splits)

lemma normalizeOpenSourceItem_field:
  "(normalizeOpenSourceItem i = None) = blank (requiredField (js ''name'') i)"
  "normalizeOpenSourceItem i = Some e \<Longrightarrow> os_name e = the (requiredField (js ''name'') i)"
  by (auto simp: normalizeOpenSourceItem_def requiredField_def Let_def split: if_splits)

lemma normalizeLegacyProject_field:
  "(normalizeLegacyProject i = None) = blank (requiredField (js ''name'') i)"
  "normalizeLegacyProject i = Some e \<Longrightarrow> proj_name e = the (requiredField (js ''name'') i)"
  by (auto simp: normalizeLegacyProject_def requiredField_def Let_def split: if_splits)

lemma normalizeLegacyWorkItem_field:
  "(normalizeLegacyWorkItem i = None) = blank (requiredField (js ''company'') i)"
  "normalizeLegacyWorkItem i = Some e \<Longrightarrow> work_company e = the (requiredField (js ''company'') i)"
  by (auto simp: normalizeLegacyWorkItem_def requiredField_def Let_def split: if_splits)

text \<open>
  A section normaliser returns no section exactly when the input counts as false or no
  item has the identifying field; the section it returns otherwise holds one entry for
  each item that has the field, in the order of the input, and none for the others.
\<close>

lemma normalizeEducationSection_entries:
  "(normalizeEducationSection v = None) =
     (\<not> truthy v \<or> (\<forall>i \<in> set (itemsRaw v). blank (requiredField (js ''school'') i)))"
  "normalizeEducationSection v = Some s \<Longrightarrow>
     map edu_school (items s) =
       map (\<lambda>i. the (requiredField (js ''school'') i))
         (filter (\<lambda>i. \<not> blank (requiredField (js ''school'') i)) (itemsRaw v))"
  using map_filter_entries [of normalizeEducationItem "\<lambda>i. blank (requiredField (js ''school'') i)"
      edu_school "\<lambda>i. the (requiredField (js ''school'') i)" "itemsRaw v",
      OF normalizeEducationItem_field]
  by (auto simp: normalizeEducationSection_def itemsRaw_def Let_def split: if_splits)

lemma normalizeProjectsSection_entries:
  "(normalizeProjectsSection v = None) =
     (\<not> truthy v \<or> (\<forall>i \<in> set (itemsRaw v). blank (requiredField (js ''name'') i)))"
  "normalizeProjectsSection v = Some s \<Longrightarrow>
     map proj_name (items s) =
       map (\<lambda>i. the (requiredField (js ''name'') i))
         (filter (\<lambda>i. \<not> blank (requiredField (js ''name'') i)) (itemsRaw v))"
  using map_filter_entries [of normalizeProjectItem "\<lambda>i. blank (requiredField (js ''name'') i)"
      proj_name "\<lambda>i. the (requiredField (js ''name'') i)" "itemsRaw v",
      OF normalizeProjectItem_field]
  by (auto simp: normalizeProjectsSection_def itemsRaw_def Let_def split: if_splits)

lemma normalizeWorkSection_entries:
  "(normalizeWorkSection v = None) =
     (\<not> truthy v \<or> (\<forall>i \<in> set (itemsRaw v). blank (requiredField (js ''company'') i)))"
  "normalizeWorkSection v = Some s \<Longrightarrow>
     map work_company (items s) =
       map (\<lambda>i. the (requiredField (js ''company'') i))
         (filter (\<lambda>i. \<not> blank (requiredField (js ''company'') i)) (itemsRaw v))"
  using map_filter_entries [of normalizeWorkItem "\<lambda>i. blank (requiredField (js ''company'') i)"
      work_company "\<lambda>i. the (requiredField (js ''company'') i)" "itemsRaw v",
      OF normalizeWorkItem_field]
  by (auto simp: normalizeWorkSection_def itemsRaw_def Let_def split: if_splits)

lemma normalizeHonorsSection_entries:
  "(normalizeHonorsSection v = None) =
     (\<not> truthy v \<or> (\<forall>i \<in> set (itemsRaw v). blank (honorName i)))"
  "normalizeHonorsSection v = Some s \<Longrightarrow>
     map honor_name (items s) =
       map (\<lambda>i. the (honorName i)) (filter (\<lambda>i. \<not> blank (honorName i)) (itemsRaw v))"
  using map_filter_entries [of normalizeHonorItem "\<lambda>i. blank (honorName i)"
      honor_name "\<lambda>i. the (honorName i)" "itemsRaw v", OF normalizeHonorItem_field]
  by (auto simp: normalizeHonorsSection_def itemsRaw_def Let_def split: if_splits)

lemma normalizeOpenSourceSection_entries:
  "(normalizeOpenSourceSection v = None) =
     (\<not> truthy v \<or> (\<forall>i \<in> set (itemsRaw v). blank (requiredField (js ''name'') i)))"
  "normalizeOpenSourceSection v = Some s \<Longrightarrow>
     map os_name (items s) =
       map (\<lambda>i. the (requiredField (js ''name'') i))
         (filter (\<lambda>i. \<not> blank (requiredField (js ''name'') i)) (itemsRaw v))"
  using map_filter_entries [of normalizeOpenSourceItem "\<lambda>i. blank (requiredField (js ''name'') i)"
      os_name "\<lambda>i. the (requiredField (js ''name'') i)" "itemsRaw v",
      OF normalizeOpenSourceItem_field]
  by (auto simp: normalizeOpenSourceSection_def itemsRaw_def Let_def split: if_splits)

text \<open>
  The skills are strings: an entry is dropped when it is not a string or a number, or is
  blank, and a section without an entry is absent.
\<close>

lemma normalizeSkillsSection_entries:
  "(normalizeSkillsSection v = None) =
     (\<not> truthy v \<or> toStringArray (coalesce (getProp (asRecord v) (js ''items'')) v) = [])"
  "normalizeSkillsSection v = Some s \<Longrightarrow>
     skills_items s = toStringArray (coalesce (getProp (asRecord v) (js ''items'')) v)"
  by (auto simp: normalizeSkillsSection_def Let_def split: if_splits)

lemma toStringArray_entries:
  "toStringArray (JArr xs) =
     filter (\<lambda>s. s \<noteq> []) (map (\<lambda>x. trim (orElse (toStringValue x) [])) xs)"
  by (simp add: comp_def)

text \<open>The legacy loops drop the same items; what they return is a list, not a section.\<close>

lemma normalizeLegacyProjects_entries:
  "map proj_name (normalizeLegacyProjects xs) =
     map (\<lambda>i. the (requiredField (js ''name'') i))
       (filter (\<lambda>i. \<not> blank (requiredField (js ''name'') i)) xs)"
  "(normalizeLegacyProjects xs = []) = (\<forall>i \<in> set xs. blank (requiredField (js ''name'') i))"
  using map_filter_entries [of normalizeLegacyProject "\<lambda>i. blank (requiredField (js ''name'') i)"
      proj_name "\<lambda>i. the (requiredField (js ''name'') i)" xs, OF normalizeLegacyProject_field]
  by (simp_all add: normalizeLegacyProjects_def)

lemma normalizeLegacyWorkItems_entries:
  "map work_company (normalizeLegacyWorkItems xs) =
     map (\<lambda>i. the (requiredField (js ''company'') i))
       (filter (\<lambda>i. \<not> blank (requiredField (js ''company'') i)) xs)"
  "(normalizeLegacyWorkItems xs = []) = (\<forall>i \<in> set xs. blank (requiredField (js ''company'') i))"
  using map_filter_entries [of normalizeLegacyWorkItem
      "\<lambda>i. blank (requiredField (js ''company'') i)"
      work_company "\<lambda>i. the (requiredField (js ''company'') i)" xs,
      OF normalizeLegacyWorkItem_field]
  by (simp_all add: normalizeLegacyWorkItems_def)

text \<open>Where the sections of a returned document come from, on each path.\<close>

lemma modern_sections:
  assumes "normalizeConfig raw = Inr d" "\<not> takesLegacyPath raw"
  shows "education d = normalizeEducationSection (field (coalesce raw (JObj [])) (js ''education''))"
    and "skills d = normalizeSkillsSection (field (coalesce raw (JObj [])) (js ''skills''))"
    and "projects d = normalizeProjectsSection (field (coalesce raw (JObj [])) (js ''projects''))"
    and "work d = normalizeWorkSection (field (coalesce raw (JObj [])) (js ''work''))"
    and "honors d = normalizeHonorsSection (field (coalesce raw (JObj [])) (js ''honors''))"
    and "openSource d = normalizeOpenSourceSection (field (coalesce raw (JObj [])) (js ''openSource''))"
proof -
  from assms have "d = normalizeModernConfig (coalesce raw (JObj []))"
    by (simp add: normalizeConfig_cases split: if_splits)
  then show "education d = normalizeEducationSection (field (coalesce raw (JObj [])) (js ''education''))"
    and "skills d = normalizeSkillsSection (field (coalesce raw (JObj [])) (js ''skills''))"
    and "projects d = normalizeProjectsSection (field (coalesce raw (JObj [])) (js ''projects''))"
    and "work d = normalizeWorkSection (field (coalesce raw (JObj [])) (js ''work''))"
    and "honors d = normalizeHonorsSection (field (coalesce raw (JObj [])) (js ''honors''))"
    and "openSource d = normalizeOpenSourceSection (field (coalesce raw (JObj [])) (js ''openSource''))"
    by (simp_all add: normalizeModernConfig_def Let_def)
qed

lemma legacy_sections:
  assumes "normalizeConfig raw = Inr d" "takesLegacyPath raw"
  shows "education d = None"
    and "skills d =
           Some \<lparr>skills_enabled = True, skills_ordered = False, skills_hideIndex = False,
                 skills_items = toStringArray (field raw (js ''skill''))\<rparr>"
    and "projects d =
           Some \<lparr>enabled = True, items = normalizeLegacyProjects (toArray (field raw (js ''exp'')))\<rparr>"
    and "work d =
           Some \<lparr>enabled = True,
                 items = normalizeLegacyWorkItems (toArray (field raw (js ''workExperience'')))\<rparr>"
    and "honors d = normalizeHonorsSection (field raw (js ''honors''))"
    and "openSource d = normalizeOpenSourceSection (field raw (js ''openSource''))"
proof -
  from assms(2) have c: "coalesce raw (JObj []) = raw"
    by (cases raw) (simp_all add: takesLegacyPath_def)
  from assms have l: "normalizeLegacyConfig raw = Inr d"
    by (simp add: normalizeConfig_cases c)
  then show "education d = None"
    by (auto simp: normalizeLegacyConfig_def Let_def split: sum.splits)
  from l show "skills d =
           Some \<lparr>skills_enabled = True, skills_ordered = False, skills_hideIndex = False,
                 skills_items = toStringArray (field raw (js ''skill''))\<rparr>"
    by (auto simp: normalizeLegacyConfig_def Let_def split: sum.splits)
  from l show "projects d =
           Some \<lparr>enabled = True, items = normalizeLegacyProjects (toArray (field raw (js ''exp'')))\<rparr>"
    by (auto simp: normalizeLegacyConfig_def Let_def split: sum.splits)
  from l show "work d =
           Some \<lparr>enabled = True,
                 items = normalizeLegacyWorkItems (toArray (field raw (js ''workExperience'')))\<rparr>"
    by (auto simp: normalizeLegacyConfig_def Let_def split: sum.splits)
  from l show "honors d = normalizeHonorsSection (field raw (js ''honors''))"
    by (auto simp: normalizeLegacyConfig_def Let_def split: sum.splits)
  from l show "openSource d = normalizeOpenSourceSection (field raw (js ''openSource''))"
    by (auto simp: normalizeLegacyConfig_def Let_def split: sum.splits)
qed



text \<open>
  On the modern path every section does what the claim says: it is absent exactly when
  the input counts as false or no item has the identifying field, and otherwise it has one
  entry for each item that has the field, in the order of the input, and no other entry,
  so that its list is not empty.
\<close>

lemma modern_education_dropped_or_absent:
  assumes "normalizeConfig raw = Inr d" "\<not> takesLegacyPath raw" "data = coalesce raw (JObj [])"
  shows "(education d = None) =
       (\<not> truthy (field data (js ''education''))
        \<or> (\<forall>i \<in> set (itemsRaw (field data (js ''education''))). blank (requiredField (js ''school'') i)))"
    and "education d = Some s \<Longrightarrow>
       items s \<noteq> []
       \<and> map edu_school (items s) =
           map (\<lambda>i. the (requiredField (js ''school'') i))
             (filter (\<lambda>i. \<not> blank (requiredField (js ''school'') i)) (itemsRaw (field data (js ''education''))))"
proof -
  have w: "education d = normalizeEducationSection (field data (js ''education''))"
    using modern_sections(1) [OF assms(1,2)] by (simp only: assms(3))
  show "(education d = None) =
       (\<not> truthy (field data (js ''education''))
        \<or> (\<forall>i \<in> set (itemsRaw (field data (js ''education''))). blank (requiredField (js ''school'') i)))"
    by (simp only: w normalizeEducationSection_entries(1))
  assume "education d = Some s"
  then have s: "normalizeEducationSection (field data (js ''education'')) = Some s"
    by (simp only: w)
  from normalizeEducationSection_entries(2) [OF s] normalizeEducationSection_items [OF s]
  show "items s \<noteq> []
       \<and> map edu_school (items s) =
           map (\<lambda>i. the (requiredField (js ''school'') i))
             (filter (\<lambda>i. \<not> blank (requiredField (js ''school'') i)) (itemsRaw (field data (js ''education''))))"
    by simp
qed

lemma modern_projects_dropped_or_absent:
  assumes "normalizeConfig raw = Inr d" "\<not> takesLegacyPath raw" "data = coalesce raw (JObj [])"
  shows "(projects d = None) =
       (\<not> truthy (field data (js ''projects''))
        \<or> (\<forall>i \<in> set (itemsRaw (field data (js ''projects''))). blank (requiredField (js ''name'') i)))"
    and "projects d = Some s \<Longrightarrow>
       items s \<noteq> []
       \<and> map proj_name (items s) =
           map (\<lambda>i. the (requiredField (js ''name'') i))
             (filter (\<lambda>i. \<not> blank (requiredField (js ''name'') i)) (itemsRaw (field data (js ''projects''))))"
proof -
  have w: "projects d = normalizeProjectsSection (field data (js ''projects''))"
    using modern_sections(3) [OF assms(1,2)] by (simp only: assms(3))
  show "(projects d = None) =
       (\<not> truthy (field data (js ''projects''))
        \<or> (\<forall>i \<in> set (itemsRaw (field data (js ''projects''))). blank (requiredField (js ''name'') i)))"
    by (simp only: w normalizeProjectsSection_entries(1))
  assume "projects d = Some s"
  then have s: "normalizeProjectsSection (field data (js ''projects'')) = Some s"
    by (simp only: w)
  from normalizeProjectsSection_entries(2) [OF s] normalizeProjectsSection_items [OF s]
  show "items s \<noteq> []
       \<and> map proj_name (items s) =
           map (\<lambda>i. the (requiredField (js ''name'') i))
             (filter (\<lambda>i. \<not> blank (requiredField (js ''name'') i)) (itemsRaw (field data (js ''projects''))))"
    by simp
qed

lemma modern_work_dropped_or_absent:
  assumes "normalizeConfig raw = Inr d" "\<not> takesLegacyPath raw" "data = coalesce raw (JObj [])"
  shows "(work d = None) =
       (\<not> truthy (field data (js ''work''))
        \<or> (\<forall>i \<in> set (itemsRaw (field data (js ''work''))). blank (requiredField (js ''company'') i)))"
    and "work d = Some s \<Longrightarrow>
       items s \<noteq> []
       \<and> map work_company (items s) =
           map (\<lambda>i. the (requiredField (js ''company'') i))
             (filter (\<lambda>i. \<not> blank (requiredField (js ''company'') i)) (itemsRaw (field data (js ''work''))))"
proof -
  have w: "work d = normalizeWorkSection (field data (js ''work''))"
    using modern_sections(4) [OF assms(1,2)] by (simp only: assms(3))
  show "(work d = None) =
       (\<not> truthy (field data (js ''work''))
        \<or> (\<forall>i \<in> set (itemsRaw (field data (js ''work''))). blank (requiredField (js ''company'') i)))"
    by (simp only: w normalizeWorkSection_entries(1))
  assume "work d = Some s"
  then have s: "normalizeWorkSection (field data (js ''work'')) = Some s"
    by (simp only: w)
  from normalizeWorkSection_entries(2) [OF s] normalizeWorkSection_items [OF s]
  show "items s \<noteq> []
       \<and> map work_company (items s) =
           map (\<lambda>i. the (requiredField (js ''company'') i))
             (filter (\<lambda>i. \<not> blank (requiredField (js ''company'') i)) (itemsRaw (field data (js ''work''))))"
    by simp
qed

lemma modern_honors_dropped_or_absent:
  assumes "normalizeConfig raw = Inr d" "\<not> takesLegacyPath raw" "data = coalesce raw (JObj [])"
  shows "(honors d = None) =
       (\<not> truthy (field data (js ''honors''))
        \<or> (\<forall>i \<in> set (itemsRaw (field data (js ''honors''))). blank (honorName i)))"
    and "honors d = Some s \<Longrightarrow>
       items s \<noteq> []
       \<and> map honor_name (items s) =
           map (\<lambda>i. the (honorName i))
             (filter (\<lambda>i. \<not> blank (honorName i)) (itemsRaw (field data (js ''honors''))))"
proof -
  have w: "honors d = normalizeHonorsSection (field data (js ''honors''))"
    using modern_sections(5) [OF assms(1,2)] by (simp only: assms(3))
  show "(honors d = None) =
       (\<not> truthy (field data (js ''honors''))
        \<or> (\<forall>i \<in> set (itemsRaw (field data (js ''honors''))). blank (honorName i)))"
    by (simp only: w normalizeHonorsSection_entries(1))
  assume "honors d = Some s"
  then have s: "normalizeHonorsSection (field data (js ''honors'')) = Some s"
    by (simp only: w)
  from normalizeHonorsSection_entries(2) [OF s] normalizeHonorsSection_items [OF s]
  show "items s \<noteq> []
       \<and> map honor_name (items s) =
           map (\<lambda>i. the (honorName i))
             (filter (\<lambda>i. \<not> blank (honorName i)) (itemsRaw (field data (js ''honors''))))"
    by simp
qed

lemma modern_openSource_dropped_or_absent:
  assumes "normalizeConfig raw = Inr d" "\<not> takesLegacyPath raw" "data = coalesce raw (JObj [])"
  shows "(openSource d = None) =
       (\<not> truthy (field data (js ''openSource''))
        \<or> (\<forall>i \<in> set (itemsRaw (field data (js ''openSource''))). blank (requiredField (js ''name'') i)))"
    and "openSource d = Some s \<Longrightarrow>
       items s \<noteq> []
       \<and> map os_name (items s) =
           map (\<lambda>i. the (requiredField (js ''name'') i))
             (filter (\<lambda>i. \<not> blank (requiredField (js ''name'') i)) (itemsRaw (field data (js ''openSource''))))"
proof -
  have w: "openSource d = normalizeOpenSourceSection (field data (js ''openSource''))"
    using modern_sections(6) [OF assms(1,2)] by (simp only: assms(3))
  show "(openSource d = None) =
       (\<not> truthy (field data (js ''openSource''))
        \<or> (\<forall>i \<in> set (itemsRaw (field data (js ''openSource''))). blank (requiredField (js ''name'') i)))"
    by (simp only: w normalizeOpenSourceSection_entries(1))
  assume "openSource d = Some s"
  then have s: "normalizeOpenSourceSection (field data (js ''openSource'')) = Some s"
    by (simp only: w)
  from normalizeOpenSourceSection_entries(2) [OF s] normalizeOpenSourceSection_items [OF s]
  show "items s \<noteq> []
       \<and> map os_name (items s) =
           map (\<lambda>i. the (requiredField (js ''name'') i))
             (filter (\<lambda>i. \<not> blank (requiredField (js ''name'') i)) (itemsRaw (field data (js ''openSource''))))"
    by simp
qed

lemma modern_skills_dropped_or_absent:
  assumes "normalizeConfig raw = Inr d" "\<not> takesLegacyPath raw" "data = coalesce raw (JObj [])"
  shows "(skills d = None) =
       (\<not> truthy (field data (js ''skills''))
        \<or> toStringArray
             (coalesce (getProp (asRecord (field data (js ''skills''))) (js ''items''))
                (field data (js ''skills''))) = [])"
    and "skills d = Some s \<Longrightarrow>
       skills_items s \<noteq> []
       \<and> skills_items s =
           toStringArray
             (coalesce (getProp (asRecord (field data (js ''skills''))) (js ''items''))
                (field data (js ''skills'')))"
proof -
  have w: "skills d = normalizeSkillsSection (field data (js ''skills''))"
    using modern_sections(2) [OF assms(1,2)] by (simp only: assms(3))
  show "(skills d = None) =
       (\<not> truthy (field data (js ''skills''))
        \<or> toStringArray
             (coalesce (getProp (asRecord (field data (js ''skills''))) (js ''items''))
                (field data (js ''skills''))) = [])"
    by (simp only: w normalizeSkillsSection_entries(1))
  assume "skills d = Some s"
  then have s: "normalizeSkillsSection (field data (js ''skills'')) = Some s"
    by (simp only: w)
  from normalizeSkillsSection_entries(2) [OF s] normalizeSkillsSection_items [OF s]
  show "skills_items s \<noteq> []
       \<and> skills_items s =
           toStringArray
             (coalesce (getProp (asRecord (field data (js ''skills''))) (js ''items''))
                (field data (js ''skills'')))"
    by simp
qed

text \<open>
  On the legacy path the honors and open-source sections go through the same normalisers
  and do the same; the education section is absent; the skills, projects and work
  sections are always present, with the entries of the items that have the identifying
  field and no other entry, so with an empty list when no item has it.
\<close>

lemma legacy_sections_dropped:
  assumes "normalizeConfig raw = Inr d" "takesLegacyPath raw"
  shows "(honors d = None) =
       (\<not> truthy (field raw (js ''honors''))
        \<or> (\<forall>i \<in> set (itemsRaw (field raw (js ''honors''))). blank (honorName i)))"
    and "(openSource d = None) =
       (\<not> truthy (field raw (js ''openSource''))
        \<or> (\<forall>i \<in> set (itemsRaw (field raw (js ''openSource''))).
              blank (requiredField (js ''name'') i)))"
    and "education d = None"
    and "\<exists>s. skills d = Some s \<and> skills_items s = toStringArray (field raw (js ''skill''))"
    and "\<exists>s. projects d = Some s
           \<and> map proj_name (items s) =
               map (\<lambda>i. the (requiredField (js ''name'') i))
                 (filter (\<lambda>i. \<not> blank (requiredField (js ''name'') i))
                    (toArray (field raw (js ''exp''))))
           \<and> ((items s = []) =
                (\<forall>i \<in> set (toArray (field raw (js ''exp''))). blank (requiredField (js ''name'') i)))"
    and "\<exists>s. work d = Some s
           \<and> map work_company (items s) =
               map (\<lambda>i. the (requiredField (js ''company'') i))
                 (filter (\<lambda>i. \<not> blank (requiredField (js ''company'') i))
                    (toArray (field raw (js ''workExperience''))))
           \<and> ((items s = []) =
                (\<forall>i \<in> set (toArray (field raw (js ''workExperience''))).
                   blank (requiredField (js ''company'') i)))"
proof -
  note l = legacy_sections [OF assms]
  show "(honors d = None) =
       (\<not> truthy (field raw (js ''honors''))
        \<or> (\<forall>i \<in> set (itemsRaw (field raw (js ''honors''))). blank (honorName i)))"
    by (simp only: l(5) normalizeHonorsSection_entries(1))
  show "(openSource d = None) =
       (\<not> truthy (field raw (js ''openSource''))
        \<or> (\<forall>i \<in> set (itemsRaw (field raw (js ''openSource''))).
              blank (requiredField (js ''name'') i)))"
    by (simp only: l(6) normalizeOpenSourceSection_entries(1))
  show "education d = None" by (rule l(1))
  show "\<exists>s. skills d = Some s \<and> skills_items s = toStringArray (field raw (js ''skill''))"
    by (simp add: l(2))
  show "\<exists>s. projects d = Some s
           \<and> map proj_name (items s) =
               map (\<lambda>i. the (requiredField (js ''name'') i))
                 (filter (\<lambda>i. \<not> blank (requiredField (js ''name'') i))
                    (toArray (field raw (js ''exp''))))
           \<and> ((items s = []) =
                (\<forall>i \<in> set (toArray (field raw (js ''exp''))). blank (requiredField (js ''name'') i)))"
    using normalizeLegacyProjects_entries [of "toArray (field raw (js ''exp''))"]
    by (simp add: l(3))
  show "\<exists>s. work d = Some s
           \<and> map work_company (items s) =
               map (\<lambda>i. the (requiredField (js ''company'') i))
                 (filter (\<lambda>i. \<not> blank (requiredField (js ''company'') i))
                    (toArray (field raw (js ''workExperience''))))
           \<and> ((items s = []) =
                (\<forall>i \<in> set (toArray (field raw (js ''workExperience''))).
                   blank (requiredField (js ''company'') i)))"
    using normalizeLegacyWorkItems_entries [of "toArray (field raw (js ''workExperience''))"]
    by (simp add: l(4))
qed

text \<open>
  The modern document with two jobs: the job without a company is dropped and the other
  is kept; a work list whose only job has no company gives no section.
\<close>

lemma modern_work_example:
  "normalizeConfig modernTwoJobs = Inr (normalizeModernConfig modernTwoJobs)
   \<and> \<not> takesLegacyPath modernTwoJobs
   \<and> map_option (map work_company \<circ> items) (work (normalizeModernConfig modernTwoJobs)) =
       Some [js ''Acme'']
   \<and> normalizeWorkSection (JArr [JObj [(js ''position'', JStr (js ''dev''))]]) = None"
  by (simp add: modernTwoJobs_def evaluation normalizeWorkSection_def normalizeWorkItem_def)

text \<open>
  Claim C2: on both paths, a section that is present has a non-empty list, and a section
  whose items all lack the identifying field is absent. The code at the legacy document
  \<^verbatim>\<open>{conf: {}, basic: {}, exp: [{role: "dev"}]}\<close>: the only project has no name and is
  dropped, and the projects section is returned with an empty list, as are the skills and
  the work section; the modern normaliser of the same list returns no section.
\<close>

theorem legacy_sections_present_empty:
  "takesLegacyPath legacyNamelessProject
   \<and> \<not> isl (normalizeConfig legacyNamelessProject)
   \<and> skills (projr (normalizeConfig legacyNamelessProject)) =
       Some \<lparr>skills_enabled = True, skills_ordered = False, skills_hideIndex = False,
             skills_items = []\<rparr>
   \<and> projects (projr (normalizeConfig legacyNamelessProject)) = Some \<lparr>enabled = True, items = []\<rparr>
   \<and> work (projr (normalizeConfig legacyNamelessProject)) = Some \<lparr>enabled = True, items = []\<rparr>
   \<and> normalizeProjectsSection (field legacyNamelessProject (js ''exp'')) = None"
  by (simp add: legacyNamelessProject_def evaluation normalizeLegacyProjects_def
        normalizeLegacyProject_def normalizeLegacyWorkItems_def normalizeProjectsSection_def
        normalizeProjectItem_def)

text \<open>
  Claim C7. The legacy document \<^verbatim>\<open>{conf: {title: "T"}, basic: {cnName: "N", overall:
  "2019.01~2021.06"}}\<close> takes the legacy path, and in the document returned the name is
  \<open>N\<close>, the title is \<open>T\<close> and the work period is from \<open>2019.01\<close> to \<open>2021.06\<close>.
\<close>

theorem legacy_mapping_example:
  "takesLegacyPath legacyExample
   \<and> (\<exists>d. normalizeConfig legacyExample = Inr d
          \<and> basic_name (basic d) = js ''N''
          \<and> site_title (site d) = js ''T''
          \<and> basic_workPeriod (basic d) =
              Some \<lparr>wp_start = Some (js ''2019.01''), wp_end = Some (js ''2021.06'')\<rparr>)"
  by (simp add: legacyExample_def evaluation periodSeparator_def)

text \<open>
  Claim C10. For every input that takes the legacy path, the document returned has no
  education section, whatever the input holds, and its education summary is the college
  of the legacy \<open>basic\<close> record as \<open>raw\<close> text (no summary when the college is absent or
  counts as false).
\<close>

theorem legacy_education_absent:
  assumes "takesLegacyPath raw" "normalizeConfig raw = Inr d"
  shows "education d = None
       \<and> basic_educationSummary (basic d) =
           (if truthy (getProp (asRecord (field raw (js ''basic''))) (js ''college''))
            then Some \<lparr>sum_school = None, sum_major = None, sum_degree = None,
                       sum_graduationYear = None,
                       sum_raw =
                         toStringValue
                           (getProp (asRecord (field raw (js ''basic''))) (js ''college''))\<rparr>
            else None)"
proof -
  from assms(1) have c: "coalesce raw (JObj []) = raw"
    by (cases raw) (simp_all add: takesLegacyPath_def)
  from assms have "normalizeLegacyConfig raw = Inr d"
    by (simp add: normalizeConfig_cases c)
  then show ?thesis
    by (auto simp: normalizeLegacyConfig_def Let_def split: sum.splits)
qed

theorem legacy_education_absent_witness:
  "takesLegacyPath legacyWithEducation
   \<and> normalizeConfig legacyWithEducation = Inr (projr (normalizeConfig legacyWithEducation))
   \<and> education (projr (normalizeConfig legacyWithEducation)) = None
   \<and> basic_educationSummary (basic (projr (normalizeConfig legacyWithEducation))) =
       Some \<lparr>sum_school = None, sum_major = None, sum_degree = None, sum_graduationYear = None,
             sum_raw = Some (js ''MIT'')\<rparr>"
  using legacy_education_absent
    [of legacyWithEducation "projr (normalizeConfig legacyWithEducation)"]
  by (simp add: legacyWithEducation_def evaluation)

text \<open>
  Claim C9, as stated: the stored colour is always of the form \<open>#rgb\<close> or \<open>#rrggbb\<close>. The
  colour \<open>red\<close> is stored as \<open>#red\<close>, which is not.
\<close>

theorem normalizeColor_hex_counterexample:
  "normalizeColor (js ''red'') = js ''#red'' \<and> \<not> hexColourForm (js ''#red'')"
  by (simp add: normalizeColor_def trim_def isWhiteSpace_def hexColourForm_def isHexDigit_def)

lemma normalizeColor_hash: "take 1 (normalizeColor v) = js ''#''"
  by (simp add: normalizeColor_def Let_def)

text \<open>
  Claim C9, amended. \<open>normalizeColor\<close> returns a string that begins with \<open>#\<close>: the default
  \<open>#111111\<close> for a blank input, the trimmed input when it begins with \<open>#\<close>, and \<open>#\<close>
  followed by the trimmed input otherwise; the digits are not checked. The theme colour
  of every document that \<open>normalizeConfig\<close> returns begins with \<open>#\<close>, and it is \<open>#111111\<close>
  on the modern path when the site has no string or number as \<open>themeColor\<close>.
\<close>

theorem normalizeColor_leading_hash:
  "take 1 (normalizeColor v) = js ''#''
   \<and> (trim v = [] \<longrightarrow> normalizeColor v = js ''#111111'')
   \<and> (trim v \<noteq> [] \<longrightarrow>
        normalizeColor v = (if take 1 (trim v) = js ''#'' then trim v else js ''#'' @ trim v))
   \<and> (normalizeConfig raw = Inr d \<longrightarrow> take 1 (site_themeColor (site d)) = js ''#'')
   \<and> (toStringValue (getProp (asRecord (field data (js ''site''))) (js ''themeColor'')) = None
        \<longrightarrow> site_themeColor (site (normalizeModernConfig data)) = js ''#111111'')"
proof -
  have "take 1 (site_themeColor (site d)) = js ''#''" if "normalizeConfig raw = Inr d"
  proof (cases "takesLegacyPath raw")
    case True
    with that have "normalizeLegacyConfig (coalesce raw (JObj [])) = Inr d"
      by (simp add: normalizeConfig_cases)
    then obtain c where "site_themeColor (site d) = normalizeColor c"
      by (auto simp: normalizeLegacyConfig_def Let_def split: sum.splits)
    then show ?thesis by (simp only: normalizeColor_hash)
  next
    case False
    with that have "d = normalizeModernConfig (coalesce raw (JObj []))"
      by (simp add: normalizeConfig_cases split: if_splits)
    then obtain c where "site_themeColor (site d) = normalizeColor c"
      by (simp add: normalizeModernConfig_def Let_def)
    then show ?thesis by (simp only: normalizeColor_hash)
  qed
  moreover have "site_themeColor (site (normalizeModernConfig data)) = js ''#111111''"
    if "toStringValue (getProp (asRecord (field data (js ''site''))) (js ''themeColor'')) = None"
    using that
    by (simp add: normalizeModernConfig_def Let_def normalizeColor_def trim_def isWhiteSpace_def)
  ultimately show ?thesis
    by (simp add: normalizeColor_hash) (simp add: normalizeColor_def Let_def)
qed

theorem normalizeColor_leading_hash_witness:
  "trim (js ''  '') = [] \<and> normalizeColor (js ''  '') = js ''#111111''
   \<and> trim (js '' 0af '') \<noteq> [] \<and> normalizeColor (js '' 0af '') = js ''#0af''
   \<and> normalizeConfig modernShortColour = Inr (normalizeModernConfig modernShortColour)
   \<and> site_themeColor (site (normalizeModernConfig modernShortColour)) = js ''#0af''
   \<and> toStringValue (getProp (asRecord (field (JObj []) (js ''site''))) (js ''themeColor'')) = None
   \<and> site_themeColor (site (normalizeModernConfig (JObj []))) = js ''#111111''"
  using normalizeColor_leading_hash
    [of "js ''  ''" modernShortColour "normalizeModernConfig modernShortColour" "JObj []"]
    normalizeColor_leading_hash [of "js '' 0af ''"]
  by (simp add: modernShortColour_def evaluation normalizeColor_def)

section \<open>Normalising a document again\<close>

lemma trim_ends:
  assumes "trim s \<noteq> []"
  shows "\<not> isWhiteSpace (hd (trim s)) \<and> \<not> isWhiteSpace (last (trim s))"
proof -
  define u where "u = dropWhile isWhiteSpace s"
  define w where "w = dropWhile isWhiteSpace (rev u)"
  have t: "trim s = rev w" by (simp add: trim_def u_def w_def)
  with assms have w: "w \<noteq> []" by simp
  then have u: "u \<noteq> []" by (auto simp: w_def)
  from w have "\<not> isWhiteSpace (hd w)" unfolding w_def by (rule hd_dropWhile)
  then have l: "\<not> isWhiteSpace (last (trim s))" using w by (simp add: t last_rev)
  have "rev u = takeWhile isWhiteSpace (rev u) @ w" by (simp add: w_def)
  then have "last (rev u) = last w" using w by (metis last_appendR)
  then have "last w = hd u" using u by (simp add: last_rev)
  moreover have "\<not> isWhiteSpace (hd u)" using u unfolding u_def by (rule hd_dropWhile)
  ultimately have "\<not> isWhiteSpace (hd (trim s))" using w by (simp add: t hd_rev)
  with l show ?thesis by simp
qed

lemma trim_fixed:
  assumes "s = [] \<or> (\<not> isWhiteSpace (hd s) \<and> \<not> isWhiteSpace (last s))"
  shows "trim s = s"
proof (cases s)
  case Nil
  then show ?thesis by (simp add: trim_def)
next
  case (Cons a as)
  with assms have a: "\<not> isWhiteSpace a" and l: "\<not> isWhiteSpace (last s)" by simp_all
  from a Cons have d: "dropWhile isWhiteSpace s = s" by simp
  from Cons have "rev s \<noteq> []" by simp
  then obtain b bs where r: "rev s = b # bs" by (cases "rev s") auto
  then have "b = last s" using Cons by (metis hd_rev list.sel(1) list.distinct(1))
  with l have "dropWhile isWhiteSpace (b # bs) = b # bs" by simp
  then have "dropWhile isWhiteSpace (rev s) = rev s" by (simp only: r)
  then show ?thesis by (simp only: trim_def d rev_rev_ident)
qed

lemma trim_trim: "trim (trim s) = trim s"
  using trim_ends [of s] by (intro trim_fixed) auto

lemma trim_fixed_ends: "trim s = s \<Longrightarrow> s \<noteq> [] \<Longrightarrow> \<not> isWhiteSpace (hd s) \<and> \<not> isWhiteSpace (last s)"
  using trim_ends [of s] by simp

lemma trim_hash: "trim t = t \<Longrightarrow> t \<noteq> [] \<Longrightarrow> trim (0x23 # t) = 0x23 # t"
  using trim_fixed_ends [of t] by (intro trim_fixed) (simp add: isWhiteSpace_def)

lemma normalizeColor_trimmed: "trim (normalizeColor v) = normalizeColor v"
proof (cases "trim v = []")
  case True
  have "trim (js ''#111111'') = js ''#111111''" by (simp add: trim_def isWhiteSpace_def)
  with True show ?thesis by (simp add: normalizeColor_def)
next
  case False
  show ?thesis
  proof (cases "take 1 (trim v) = js ''#''")
    case True
    with False show ?thesis by (simp add: normalizeColor_def trim_trim)
  next
    case h: False
    from False have "trim (0x23 # trim v) = 0x23 # trim v" by (intro trim_hash) (simp_all add: trim_trim)
    with False h show ?thesis by (simp add: normalizeColor_def)
  qed
qed

lemma normalizeColor_idem: "normalizeColor (normalizeColor v) = normalizeColor v"
proof -
  have "take 1 (normalizeColor v) = js ''#''" by (simp add: normalizeColor_def Let_def)
  moreover have "normalizeColor v \<noteq> []" by (auto simp: normalizeColor_def Let_def)
  ultimately show ?thesis
    by (subst (1) normalizeColor_def) (simp add: Let_def normalizeColor_trimmed)
qed


lemma toStringValue_trimmed: "numbersRendered v \<Longrightarrow> toStringValue v = Some s \<Longrightarrow> trim s = s"
  by (cases v) (auto simp: trim_trim)

lemma numbersRendered_map_of:
  "\<forall>p \<in> set ps. numbersRendered (snd p) \<Longrightarrow> map_of ps k = Some x \<Longrightarrow> numbersRendered x"
  by (fastforce dest: map_of_SomeD)

lemma numbersRendered_getProp: "numbersRendered v \<Longrightarrow> numbersRendered (getProp (asRecord v) k)"
  by (cases v) (auto split: option.splits intro: numbersRendered_map_of)

lemma numbersRendered_field: "numbersRendered v \<Longrightarrow> numbersRendered (field v k)"
  by (cases v) (auto split: option.splits intro: numbersRendered_map_of)

lemma numbersRendered_toArray: "numbersRendered v \<Longrightarrow> x \<in> set (toArray v) \<Longrightarrow> numbersRendered x"
  by (cases v) auto

lemma numbersRendered_coalesce: "numbersRendered a \<Longrightarrow> numbersRendered b \<Longrightarrow> numbersRendered (coalesce a b)"
  by (cases a) auto

lemma toStringValue_rawOpt: "numbersRendered v \<Longrightarrow> toStringValue (rawOpt (toStringValue v)) = toStringValue v"
  by (cases "toStringValue v") (auto dest: toStringValue_trimmed)

lemma toStringArray_elements:
  "numbersRendered v \<Longrightarrow> s \<in> set (toStringArray v) \<Longrightarrow> s \<noteq> [] \<and> trim s = s"
  by (cases v) (auto simp: trim_trim split: option.splits if_splits)

lemma toStringArray_rawStrings:
  "\<forall>s \<in> set xs. s \<noteq> [] \<and> trim s = s \<Longrightarrow> toStringArray (rawStrings xs) = xs"
  by (induction xs) (auto simp: rawStrings_def)

lemma toStringArray_idem:
  "numbersRendered v \<Longrightarrow> toStringArray (rawStrings (toStringArray v)) = toStringArray v"
  using toStringArray_elements by (intro toStringArray_rawStrings) blast

lemma normalizeTechStack_elements:
  "numbersRendered v \<Longrightarrow> s \<in> set (normalizeTechStack v) \<Longrightarrow> s \<noteq> [] \<and> trim s = s"
  using toStringArray_elements [of v s]
  by (auto simp: normalizeTechStack_def Let_def trim_trim split: if_splits option.splits)

lemma normalizeTechStack_rawStrings:
  "\<forall>s \<in> set xs. s \<noteq> [] \<and> trim s = s \<Longrightarrow> normalizeTechStack (rawStrings xs) = xs"
  using toStringArray_rawStrings [of xs]
  by (cases xs) (auto simp: normalizeTechStack_def Let_def rawStrings_def)

lemma normalizeTechStack_idem:
  "numbersRendered v \<Longrightarrow> normalizeTechStack (rawStrings (normalizeTechStack v)) = normalizeTechStack v"
  using normalizeTechStack_elements by (intro normalizeTechStack_rawStrings) blast

lemma map_filter_id:
  "\<forall>x \<in> set xs. f (g x) = Some x \<Longrightarrow> List.map_filter f (map g xs) = xs"
  by (induction xs) simp_all


lemma normalizeCourse_idem:
  assumes "numbersRendered v" "normalizeCourse v = Some c"
  shows "normalizeCourse (rawCourse c) = Some c"
proof -
  define name where "name = (case toStringValue (getProp (asRecord v) (js ''name'')) of
                    Some n \<Rightarrow> Some n | None \<Rightarrow> toStringValue v)"
  from assms(2) have nb: "\<not> blank name" and c: "c = \<lparr>course_name = the name,
      course_credit = toStringValue (getProp (asRecord v) (js ''credit''))\<rparr>"
    by (auto simp: normalizeCourse_def Let_def name_def split: if_splits)
  have "trim (the name) = the name"
    using nb toStringValue_trimmed [OF assms(1)]
      toStringValue_trimmed [OF numbersRendered_getProp [OF assms(1)], of "js ''name''"]
    by (cases "toStringValue v") (auto simp: name_def split: option.splits)
  moreover have "the name \<noteq> []" using nb by (rule blank_the)
  ultimately show ?thesis
    using toStringValue_rawOpt [OF numbersRendered_getProp [OF assms(1)], of "js ''credit''"]
    by (simp add: c normalizeCourse_def rawCourse_def Let_def)
qed


lemma not_blank_iff: "\<not> blank x \<longleftrightarrow> (\<exists>n. x = Some n \<and> n \<noteq> [])"
  by (cases x) simp_all

lemmas idem_simps = toStringValue_rawOpt toStringArray_idem normalizeTechStack_idem
  numbersRendered_getProp numbersRendered_field

lemma normalizeCourses_idem:
  assumes "numbersRendered v"
  shows "List.map_filter normalizeCourse (map rawCourse (List.map_filter normalizeCourse (toArray v)))
       = List.map_filter normalizeCourse (toArray v)"
  using assms normalizeCourse_idem numbersRendered_toArray
  by (intro map_filter_id) (auto simp: set_map_filter)

lemma normalizeEducationItem_idem:
  assumes "numbersRendered v" "normalizeEducationItem v = Some i"
  shows "normalizeEducationItem (rawEducationItem i) = Some i"
proof -
  from assms(2) obtain n where n: "toStringValue (getProp (asRecord v) (js ''school'')) = Some n" "n \<noteq> []"
    by (auto simp: normalizeEducationItem_def Let_def not_blank_iff split: if_splits)
  have t: "trim n = n"
    using toStringValue_trimmed [OF numbersRendered_getProp [OF assms(1)] n(1)] .
  from assms(2) n have i: "i = \<lparr>edu_school = n,
      edu_start = toStringValue (getProp (asRecord v) (js ''start'')),
      edu_end = toStringValue (getProp (asRecord v) (js ''end'')),
      edu_gpa = toStringValue (getProp (asRecord v) (js ''gpa'')),
      edu_major = toStringValue (getProp (asRecord v) (js ''major'')),
      edu_courses = List.map_filter normalizeCourse (toArray (getProp (asRecord v) (js ''courses''))),
      edu_rank = toStringValue (getProp (asRecord v) (js ''rank'')),
      edu_degree = toStringValue (getProp (asRecord v) (js ''degree''))\<rparr>"
    by (simp add: normalizeEducationItem_def Let_def)
  show ?thesis
    unfolding i
    by (simp add: normalizeEducationItem_def rawEducationItem_def Let_def t n assms(1) idem_simps
          normalizeCourses_idem)
qed

lemma normalizeProjectItem_idem:
  assumes "numbersRendered v" "normalizeProjectItem v = Some i"
  shows "normalizeProjectItem (rawProjectItem i) = Some i"
proof -
  from assms(2) obtain n where n: "toStringValue (getProp (asRecord v) (js ''name'')) = Some n" "n \<noteq> []"
    by (auto simp: normalizeProjectItem_def Let_def not_blank_iff split: if_splits)
  have t: "trim n = n"
    using toStringValue_trimmed [OF numbersRendered_getProp [OF assms(1)] n(1)] .
  from assms(2) n have i: "i = \<lparr>proj_name = n,
      proj_time = toStringValue (getProp (asRecord v) (js ''time'')),
      proj_description = toStringValue (getProp (asRecord v) (js ''description'')),
      proj_responsibilities = toStringArray (getProp (asRecord v) (js ''responsibilities'')),
      proj_techStack = normalizeTechStack (getProp (asRecord v) (js ''techStack''))\<rparr>"
    by (simp add: normalizeProjectItem_def Let_def)
  show ?thesis
    unfolding i
    by (simp add: normalizeProjectItem_def rawProjectItem_def Let_def t n assms(1) idem_simps)
qed

lemma normalizeWorkItem_idem:
  assumes "numbersRendered v" "normalizeWorkItem v = Some i"
  shows "normalizeWorkItem (rawWorkItem i) = Some i"
proof -
  from assms(2) obtain n where n: "toStringValue (getProp (asRecord v) (js ''company'')) = Some n" "n \<noteq> []"
    by (auto simp: normalizeWorkItem_def Let_def not_blank_iff split: if_splits)
  have t: "trim n = n"
    using toStringValue_trimmed [OF numbersRendered_getProp [OF assms(1)] n(1)] .
  from assms(2) n have i: "i = \<lparr>work_company = n,
      work_time = toStringValue (getProp (asRecord v) (js ''time'')),
      work_position = toStringValue (getProp (asRecord v) (js ''position'')),
      work_achievements = toStringArray (getProp (asRecord v) (js ''achievements''))\<rparr>"
    by (simp add: normalizeWorkItem_def Let_def)
  show ?thesis
    unfolding i
    by (simp add: normalizeWorkItem_def rawWorkItem_def Let_def t n assms(1) idem_simps)
qed

lemma normalizeHonorItem_idem:
  assumes "numbersRendered v" "normalizeHonorItem v = Some i"
  shows "normalizeHonorItem (rawHonorItem i) = Some i"
proof -
  define name where "name = (case toStringValue (getProp (asRecord v) (js ''name'')) of
                    Some n \<Rightarrow> Some n | None \<Rightarrow> toStringValue v)"
  from assms(2) obtain n where n: "name = Some n" "n \<noteq> []"
    by (auto simp: normalizeHonorItem_def Let_def name_def not_blank_iff split: if_splits)
  have t: "trim n = n"
    using n(1) toStringValue_trimmed [OF assms(1)]
      toStringValue_trimmed [OF numbersRendered_getProp [OF assms(1)], of "js ''name''"]
    by (auto simp: name_def split: option.splits)
  from assms(2) n have i: "i = \<lparr>honor_name = n,
      honor_time = toStringValue (getProp (asRecord v) (js ''time''))\<rparr>"
    by (simp add: normalizeHonorItem_def Let_def name_def)
  show ?thesis
    unfolding i
    by (simp add: normalizeHonorItem_def rawHonorItem_def Let_def t n assms(1) idem_simps)
qed

lemma normalizeOpenSourceItem_idem:
  assumes "numbersRendered v" "normalizeOpenSourceItem v = Some i"
  shows "normalizeOpenSourceItem (rawOpenSourceItem i) = Some i"
proof -
  from assms(2) obtain n where n: "toStringValue (getProp (asRecord v) (js ''name'')) = Some n" "n \<noteq> []"
    by (auto simp: normalizeOpenSourceItem_def Let_def not_blank_iff split: if_splits)
  have t: "trim n = n"
    using toStringValue_trimmed [OF numbersRendered_getProp [OF assms(1)] n(1)] .
  from assms(2) n have i: "i = \<lparr>os_name = n,
      os_url = toStringValue (getProp (asRecord v) (js ''url'')),
      os_stars = toStringValue (getProp (asRecord v) (js ''stars'')),
      os_description = toStringValue (getProp (asRecord v) (js ''description'')),
      os_achievements = toStringArray (getProp (asRecord v) (js ''achievements''))\<rparr>"
    by (simp add: normalizeOpenSourceItem_def Let_def)
  show ?thesis
    unfolding i
    by (simp add: normalizeOpenSourceItem_def rawOpenSourceItem_def Let_def t n assms(1) idem_simps)
qed

lemma normalizeLink_idem:
  assumes "numbersRendered v" "normalizeLink v = Some i"
  shows "normalizeLink (rawLink i) = Some i"
proof -
  from assms(2) obtain l u where l: "toStringValue (getProp (asRecord v) (js ''label'')) = Some l" "l \<noteq> []"
    and u: "toStringValue (getProp (asRecord v) (js ''url'')) = Some u" "u \<noteq> []"
    by (auto simp: normalizeLink_def Let_def not_blank_iff split: if_splits)
  have t: "trim l = l" "trim u = u"
    using toStringValue_trimmed [OF numbersRendered_getProp [OF assms(1)] l(1)]
      toStringValue_trimmed [OF numbersRendered_getProp [OF assms(1)] u(1)] by simp_all
  from assms(2) l u have i: "i = \<lparr>link_label = l, link_url = u\<rparr>"
    by (simp add: normalizeLink_def Let_def)
  show ?thesis
    unfolding i by (simp add: normalizeLink_def rawLink_def Let_def t l u)
qed


lemma section_items_idem:
  assumes "numbersRendered v"
    and "\<And>x i. numbersRendered x \<Longrightarrow> f x = Some i \<Longrightarrow> f (g i) = Some i"
  shows "List.map_filter f (map g (List.map_filter f (toArray (coalesce (getProp (asRecord v) k) v))))
       = List.map_filter f (toArray (coalesce (getProp (asRecord v) k) v))"
proof -
  have "numbersRendered x" if "x \<in> set (toArray (coalesce (getProp (asRecord v) k) v))" for x
    using that assms(1) numbersRendered_toArray numbersRendered_coalesce numbersRendered_getProp
    by blast
  with assms(2) show ?thesis
    by (intro map_filter_id) (auto simp: set_map_filter)
qed

lemma normalizeEducationSection_idem:
  assumes "numbersRendered v"
  shows "normalizeEducationSection (rawMaybe (rawItemSection rawEducationItem) (normalizeEducationSection v))
       = normalizeEducationSection v"
proof (cases "normalizeEducationSection v")
  case None
  then show ?thesis by (simp add: normalizeEducationSection_def)
next
  case (Some sec)
  define its where "its = List.map_filter normalizeEducationItem
      (toArray (coalesce (getProp (asRecord v) (js ''items'')) v))"
  from Some have ne: "its \<noteq> []"
    and sec: "sec = \<lparr>enabled = toBooleanValue (getProp (asRecord v) (js ''enabled'')) True, items = its\<rparr>"
    by (auto simp: normalizeEducationSection_def Let_def its_def split: if_splits)
  have "List.map_filter normalizeEducationItem (map rawEducationItem its) = its"
    unfolding its_def by (rule section_items_idem [OF assms]) (rule normalizeEducationItem_idem)
  with ne show ?thesis
    unfolding Some sec by (simp add: normalizeEducationSection_def rawItemSection_def Let_def)
qed

lemma normalizeProjectsSection_idem:
  assumes "numbersRendered v"
  shows "normalizeProjectsSection (rawMaybe (rawItemSection rawProjectItem) (normalizeProjectsSection v))
       = normalizeProjectsSection v"
proof (cases "normalizeProjectsSection v")
  case None
  then show ?thesis by (simp add: normalizeProjectsSection_def)
next
  case (Some sec)
  define its where "its = List.map_filter normalizeProjectItem
      (toArray (coalesce (getProp (asRecord v) (js ''items'')) v))"
  from Some have ne: "its \<noteq> []"
    and sec: "sec = \<lparr>enabled = toBooleanValue (getProp (asRecord v) (js ''enabled'')) True, items = its\<rparr>"
    by (auto simp: normalizeProjectsSection_def Let_def its_def split: if_splits)
  have "List.map_filter normalizeProjectItem (map rawProjectItem its) = its"
    unfolding its_def by (rule section_items_idem [OF assms]) (rule normalizeProjectItem_idem)
  with ne show ?thesis
    unfolding Some sec by (simp add: normalizeProjectsSection_def rawItemSection_def Let_def)
qed

lemma normalizeWorkSection_idem:
  assumes "numbersRendered v"
  shows "normalizeWorkSection (rawMaybe (rawItemSection rawWorkItem) (normalizeWorkSection v))
       = normalizeWorkSection v"
proof (cases "normalizeWorkSection v")
  case None
  then show ?thesis by (simp add: normalizeWorkSection_def)
next
  case (Some sec)
  define its where "its = List.map_filter normalizeWorkItem
      (toArray (coalesce (getProp (asRecord v) (js ''items'')) v))"
  from Some have ne: "its \<noteq> []"
    and sec: "sec = \<lparr>enabled = toBooleanValue (getProp (asRecord v) (js ''enabled'')) True, items = its\<rparr>"
    by (auto simp: normalizeWorkSection_def Let_def its_def split: if_splits)
  have "List.map_filter normalizeWorkItem (map rawWorkItem its) = its"
    unfolding its_def by (rule section_items_idem [OF assms]) (rule normalizeWorkItem_idem)
  with ne show ?thesis
    unfolding Some sec by (simp add: normalizeWorkSection_def rawItemSection_def Let_def)
qed

lemma normalizeHonorsSection_idem:
  assumes "numbersRendered v"
  shows "normalizeHonorsSection (rawMaybe (rawItemSection rawHonorItem) (normalizeHonorsSection v))
       = normalizeHonorsSection v"
proof (cases "normalizeHonorsSection v")
  case None
  then show ?thesis by (simp add: normalizeHonorsSection_def)
next
  case (Some sec)
  define its where "its = List.map_filter normalizeHonorItem
      (toArray (coalesce (getProp (asRecord v) (js ''items'')) v))"
  from Some have ne: "its \<noteq> []"
    and sec: "sec = \<lparr>enabled = toBooleanValue (getProp (asRecord v) (js ''enabled'')) True, items = its\<rparr>"
    by (auto simp: normalizeHonorsSection_def Let_def its_def split: if_splits)
  have "List.map_filter normalizeHonorItem (map rawHonorItem its) = its"
    unfolding its_def by (rule section_items_idem [OF assms]) (rule normalizeHonorItem_idem)
  with ne show ?thesis
    unfolding Some sec by (simp add: normalizeHonorsSection_def rawItemSection_def Let_def)
qed

lemma normalizeOpenSourceSection_idem:
  assumes "numbersRendered v"
  shows "normalizeOpenSourceSection (rawMaybe (rawItemSection rawOpenSourceItem) (normalizeOpenSourceSection v))
       = normalizeOpenSourceSection v"
proof (cases "normalizeOpenSourceSection v")
  case None
  then show ?thesis by (simp add: normalizeOpenSourceSection_def)
next
  case (Some sec)
  define its where "its = List.map_filter normalizeOpenSourceItem
      (toArray (coalesce (getProp (asRecord v) (js ''items'')) v))"
  from Some have ne: "its \<noteq> []"
    and sec: "sec = \<lparr>enabled = toBooleanValue (getProp (asRecord v) (js ''enabled'')) True, items = its\<rparr>"
    by (auto simp: normalizeOpenSourceSection_def Let_def its_def split: if_splits)
  have "List.map_filter normalizeOpenSourceItem (map rawOpenSourceItem its) = its"
    unfolding its_def by (rule section_items_idem [OF assms]) (rule normalizeOpenSourceItem_idem)
  with ne show ?thesis
    unfolding Some sec by (simp add: normalizeOpenSourceSection_def rawItemSection_def Let_def)
qed

lemma coalesce_rawStrings: "coalesce (rawStrings xs) b = rawStrings xs"
  by (simp add: rawStrings_def)

lemma normalizeSkillsSection_idem:
  assumes "numbersRendered v"
  shows "normalizeSkillsSection (rawMaybe rawSkills (normalizeSkillsSection v)) = normalizeSkillsSection v"
proof (cases "normalizeSkillsSection v")
  case None
  then show ?thesis by (simp add: normalizeSkillsSection_def)
next
  case (Some sec)
  define its where "its = toStringArray (coalesce (getProp (asRecord v) (js ''items'')) v)"
  from Some have ne: "its \<noteq> []" and sec: "sec =
      \<lparr>skills_enabled = toBooleanValue (getProp (asRecord v) (js ''enabled'')) True,
       skills_ordered =
         (map_option toLowerCase (toStringValue (getProp (asRecord v) (js ''listStyle'')))
            = Some (js ''ordered'')
          \<or> toBooleanValue (getProp (asRecord v) (js ''ordered'')) False),
       skills_hideIndex = toBooleanValue (getProp (asRecord v) (js ''hideIndex'')) False,
       skills_items = its\<rparr>"
    by (auto simp: normalizeSkillsSection_def Let_def its_def split: if_splits)
  have "\<forall>s \<in> set its. s \<noteq> [] \<and> trim s = s"
    unfolding its_def
    using toStringArray_elements assms numbersRendered_coalesce numbersRendered_getProp by blast
  then have "toStringArray (rawStrings its) = its" by (rule toStringArray_rawStrings)
  with ne show ?thesis
    unfolding Some sec
    by (simp add: normalizeSkillsSection_def rawSkills_def Let_def coalesce_rawStrings)
qed

lemma normalizeProfileSection_idem:
  assumes "numbersRendered v"
  shows "normalizeProfileSection (rawMaybe rawProfile (normalizeProfileSection v)) = normalizeProfileSection v"
proof (cases "normalizeProfileSection v")
  case None
  then show ?thesis by (simp add: normalizeProfileSection_def)
next
  case (Some sec)
  then obtain c where c: "toStringValue (coalesce (getProp (asRecord v) (js ''content'')) v) = Some c" "c \<noteq> []"
    and sec: "sec = \<lparr>profile_enabled = toBooleanValue (getProp (asRecord v) (js ''enabled'')) True,
                   profile_content = c\<rparr>"
    by (auto simp: normalizeProfileSection_def Let_def not_blank_iff split: if_splits)
  have "trim c = c"
    using toStringValue_trimmed [OF _ c(1)] assms numbersRendered_coalesce numbersRendered_getProp
    by blast
  with c show ?thesis
    unfolding Some sec by (simp add: normalizeProfileSection_def rawProfile_def Let_def)
qed

lemma normalizeLinks_idem:
  assumes "numbersRendered v"
  shows "normalizeLinks (map rawLink (normalizeLinks (toArray v))) = normalizeLinks (toArray v)"
  unfolding normalizeLinks_def
  using assms normalizeLink_idem numbersRendered_toArray
  by (intro map_filter_id) (auto simp: set_map_filter)

lemma normalizeEducationSummary_idem:
  assumes "numbersRendered v"
  shows "normalizeEducationSummary (asRecord (rawMaybe rawEducationSummary (normalizeEducationSummary (asRecord v))))
       = normalizeEducationSummary (asRecord v)"
proof (cases "asRecord v")
  case None
  then show ?thesis by simp
next
  case (Some ps)
  have "toStringValue (rawOpt (toStringValue (getProp (Some ps) k))) = toStringValue (getProp (Some ps) k)" for k
    using toStringValue_rawOpt [OF numbersRendered_getProp [OF assms], of k] Some by simp
  then show ?thesis by (simp add: Some rawEducationSummary_def)
qed


lemma moduleKeyName_trimmed: "moduleKeyName k \<noteq> [] \<and> trim (moduleKeyName k) = moduleKeyName k"
  by (cases k) (simp_all add: trim_def isWhiteSpace_def)

lemma toStringArray_names:
  "toStringArray (JArr (map rawAliasValue (map Key ks))) = map moduleKeyName ks"
  by (induction ks) (simp_all add: moduleKeyName_trimmed)

lemma map_filter_names:
  "List.map_filter (\<lambda>x. normalizeModuleKey (Some x)) (map moduleKeyName ks) = map Key ks"
  by (induction ks) (simp_all add: normalizeModuleKey_moduleKeyName del: normalizeModuleKey.simps)

lemma normalizeOrder_names:
  assumes "distinct ks" "set ks = UNIV"
  shows "normalizeOrder (map moduleKeyName ks) = map Key ks"
proof -
  from assms(2) have ne: "ks \<noteq> []" by auto
  have d: "distinct (rev (map Key ks))" using assms(1) by (simp add: distinct_map inj_on_def)
  have "rev (remdups (rev (map Key ks))) = map Key ks"
    by (simp only: distinct_remdups_id [OF d] rev_rev_ident)
  moreover have "filter (\<lambda>v. v \<notin> set (map Key ks)) (map Key DEFAULT_ORDER) = []"
    using assms(2) by (auto simp: filter_empty_conv)
  ultimately show ?thesis
    unfolding normalizeOrder_shape Let_def using ne
    by (simp add: map_filter_names del: normalizeModuleKey.simps)
qed

lemma normalizeOrder_idem:
  assumes "\<forall>x \<in> set order. cleanKey x \<noteq> js ''constructor''"
  shows "normalizeOrder (toStringArray (JArr (map rawAliasValue (normalizeOrder order))))
       = normalizeOrder order"
proof -
  have m: "mset (normalizeOrder order) = mset (map Key DEFAULT_ORDER)"
    using assms by (rule normalizeOrder_permutation)
  then have "set (normalizeOrder order) = Key ` UNIV"
    using mset_eq_setD [OF m] by (simp add: set_DEFAULT_ORDER)
  then have "\<forall>v \<in> set (normalizeOrder order). \<exists>k. v = Key k" by auto
  then obtain ks where ks: "normalizeOrder order = map Key ks"
    by (metis ex_map_conv)
  have "distinct ks" using distinct_normalizeOrder [of order] by (simp add: ks distinct_map)
  moreover have "set ks = UNIV"
    using \<open>set (normalizeOrder order) = Key ` UNIV\<close> by (auto simp: ks inj_image_eq_iff inj_on_def)
  ultimately show ?thesis
    by (simp only: ks toStringArray_names normalizeOrder_names)
qed

lemma update_entries:
  "\<forall>p \<in> set al. P p \<Longrightarrow> P (k, v) \<Longrightarrow> \<forall>p \<in> set (AList.update k v al). P p"
  by (induction al) auto

lemma keys_MODULE_TITLES: "map fst MODULE_TITLES = map moduleKeyName DEFAULT_ORDER"
  by (simp add: MODULE_TITLES_def DEFAULT_ORDER_def)

lemma values_MODULE_TITLES: "p \<in> set MODULE_TITLES \<Longrightarrow> snd p \<noteq> [] \<and> trim (snd p) = snd p"
  by (auto simp: MODULE_TITLES_def trim_def isWhiteSpace_def)

lemma titleMapStep_entries:
  assumes "\<forall>p \<in> set acc. titleEntry p" "cleanKey (fst q) \<noteq> js ''constructor''" "numbersRendered (snd q)"
  shows "\<forall>p \<in> set (titleMapStep acc q). titleEntry p"
proof (cases q)
  case (Pair key title)
  show ?thesis
  proof (cases "normalizeModuleKey (Some key)")
    case None
    with Pair assms(1) show ?thesis by (simp del: normalizeModuleKey.simps)
  next
    case (Some mk)
    show ?thesis
    proof (cases "toStringValue title")
      case None
      with Pair Some assms(1) show ?thesis by (simp del: normalizeModuleKey.simps)
    next
      case t: (Some str)
      show ?thesis
      proof (cases "str = []")
        case True
        with Pair Some t assms(1) show ?thesis by (simp del: normalizeModuleKey.simps)
      next
        case False
        have ni: "mk \<noteq> Inherited n" for n
        proof
          assume "mk = Inherited n"
          with Some have "normalizeModuleKey (Some key) = Some (Inherited n)" by (simp only:)
          then have "cleanKey key = js ''constructor''" by (rule normalizeModuleKey_inherited)
          with assms(2) Pair show False by simp
        qed
        then have "\<exists>k. mk = Key k"
        proof (cases mk)
          case (Key k)
          then show ?thesis by simp
        next
          case (Inherited n)
          with ni [of n] show ?thesis by simp
        qed
        then obtain k where k: "mk = Key k" by (rule exE)
        from assms(3) Pair have "numbersRendered title" by simp
        from toStringValue_trimmed [OF this t] have "trim str = str" .
        with False k have "titleEntry (toPropertyKey mk, str)" by (simp add: titleEntry_def)
        with assms(1) have "\<forall>p \<in> set (AList.update (toPropertyKey mk) str acc). titleEntry p"
          by (rule update_entries)
        with Pair Some t False show ?thesis by (simp del: normalizeModuleKey.simps)
      qed
    qed
  qed
qed

lemma foldl_titleMapStep_entries:
  "\<forall>p \<in> set acc. titleEntry p \<Longrightarrow>
   \<forall>q \<in> set ps. cleanKey (fst q) \<noteq> js ''constructor'' \<and> numbersRendered (snd q) \<Longrightarrow>
   \<forall>p \<in> set (foldl titleMapStep acc ps). titleEntry p"
proof (induction ps arbitrary: acc)
  case Nil
  then show ?case by simp
next
  case (Cons q ps)
  have a: "\<forall>p \<in> set acc. titleEntry p" by (rule Cons.prems(1))
  have b: "cleanKey (fst q) \<noteq> js ''constructor''" using Cons.prems(2) by simp
  have c: "numbersRendered (snd q)" using Cons.prems(2) by simp
  have "\<forall>p \<in> set (titleMapStep acc q). titleEntry p"
    by (rule titleMapStep_entries [OF a b c])
  moreover from Cons.prems(2)
  have "\<forall>q \<in> set ps. cleanKey (fst q) \<noteq> js ''constructor'' \<and> numbersRendered (snd q)"
    by simp
  ultimately have "\<forall>p \<in> set (foldl titleMapStep (titleMapStep acc q) ps). titleEntry p"
    by (rule Cons.IH)
  then show ?case by (simp only: foldl_Cons)
qed

lemma spread_keys:
  "\<forall>p \<in> set b. fst p \<in> set (map fst a) \<Longrightarrow> map fst (spread a b) = map fst a"
proof (induction b arbitrary: a)
  case Nil
  then show ?case by (simp add: spread_def)
next
  case (Cons q b)
  obtain k v where q: "q = (k, v)" by (cases q)
  with Cons.prems have "map fst (AList.update k v a) = map fst a"
    by (simp add: update_keys)
  with Cons.prems have "map fst (spread (AList.update k v a) b) = map fst (AList.update k v a)"
    by (intro Cons.IH) simp
  with \<open>map fst (AList.update k v a) = map fst a\<close> q show ?case by (simp add: spread_def)
qed

lemma spread_entries:
  "\<forall>p \<in> set a. P p \<Longrightarrow> \<forall>p \<in> set b. P p \<Longrightarrow> \<forall>p \<in> set (spread a b). P p"
proof (induction b arbitrary: a)
  case Nil
  then show ?case by (simp add: spread_def)
next
  case (Cons q b)
  obtain k v where q: "q = (k, v)" by (cases q)
  from Cons.prems q have "\<forall>p \<in> set (AList.update k v a). P p"
    by (intro update_entries) simp_all
  with Cons.prems have "\<forall>p \<in> set (spread (AList.update k v a) b). P p"
    by (intro Cons.IH) simp_all
  with q show ?case by (simp add: spread_def)
qed

lemma range_moduleKeyName: "range moduleKeyName = set (map fst MODULE_TITLES)"
  by (simp add: keys_MODULE_TITLES set_DEFAULT_ORDER)

lemma moduleTitles_shape:
  assumes "\<forall>q \<in> set ps. cleanKey (fst q) \<noteq> js ''constructor'' \<and> numbersRendered (snd q)"
  shows "map fst (spread MODULE_TITLES (foldl titleMapStep [] ps)) = map fst MODULE_TITLES
       \<and> (\<forall>p \<in> set (spread MODULE_TITLES (foldl titleMapStep [] ps)). snd p \<noteq> [] \<and> trim (snd p) = snd p)"
proof -
  have e: "\<forall>p \<in> set (foldl titleMapStep [] ps). titleEntry p"
    using assms by (intro foldl_titleMapStep_entries) simp_all
  then have "\<forall>p \<in> set (foldl titleMapStep [] ps). fst p \<in> set (map fst MODULE_TITLES)"
    by (simp add: titleEntry_def range_moduleKeyName)
  then have "map fst (spread MODULE_TITLES (foldl titleMapStep [] ps)) = map fst MODULE_TITLES"
    by (rule spread_keys)
  moreover have "\<forall>p \<in> set (spread MODULE_TITLES (foldl titleMapStep [] ps)). snd p \<noteq> [] \<and> trim (snd p) = snd p"
    using values_MODULE_TITLES e by (intro spread_entries) (auto simp: titleEntry_def)
  ultimately show ?thesis by simp
qed


lemma moduleTitles_again:
  assumes "map fst T = map fst MODULE_TITLES" "\<forall>p \<in> set T. snd p \<noteq> [] \<and> trim (snd p) = snd p"
  shows "spread MODULE_TITLES (foldl titleMapStep [] (map (\<lambda>(k, v). (k, JStr v)) T)) = T"
proof -
  from assms(1) obtain v1 v2 v3 v4 v5 v6 v7 where T: "T =
     [(js ''education'', v1), (js ''skills'', v2), (js ''projects'', v3), (js ''profile'', v4),
      (js ''work'', v5), (js ''honors'', v6), (js ''openSource'', v7)]"
    by (auto simp: MODULE_TITLES_def map_eq_Cons_conv)
  from assms(2) have v: "v1 \<noteq> []" "trim v1 = v1" "v2 \<noteq> []" "trim v2 = v2" "v3 \<noteq> []" "trim v3 = v3"
    "v4 \<noteq> []" "trim v4 = v4" "v5 \<noteq> []" "trim v5 = v5" "v6 \<noteq> []" "trim v6 = v6"
    "v7 \<noteq> []" "trim v7 = v7"
    by (simp_all add: T)
  show ?thesis
    unfolding T
    by (simp add: v spread_def MODULE_TITLES_def MODULE_ALIAS_get_def MODULE_ALIAS_def cleanKey_def
          toLowerCase_def lowerUnit_def isWhiteSpace_def)
qed

lemma orElse_trimmed:
  "numbersRendered v \<Longrightarrow> trim dflt = dflt \<Longrightarrow>
     trim (orElse (toStringValue v) dflt) = orElse (toStringValue v) dflt"
  by (cases "toStringValue v") (auto dest: toStringValue_trimmed)

lemma defaults_trimmed:
  "trim defaultTitle = defaultTitle" "trim defaultName = defaultName"
  "trim (js ''resume.pdf'') = js ''resume.pdf''"
  by (simp_all add: defaultTitle_def defaultName_def trim_def isWhiteSpace_def)

lemma numbersRendered_data: "numbersRendered x \<Longrightarrow> numbersRendered (coalesce x (JObj []))"
  by (cases x) simp_all

lemma site_idem:
  assumes "numbersRendered data"
    and "\<forall>k \<in> set (toStringArray (getProp (asRecord (field data (js ''site''))) (js ''order''))).
           cleanKey k \<noteq> js ''constructor''"
    and "\<forall>k \<in> set (objectKeys (asRecord (getProp (asRecord (field data (js ''site'')))
           (js ''moduleTitles'')))). cleanKey k \<noteq> js ''constructor''"
  shows "site (normalizeModernConfig (toRaw (normalizeModernConfig data)))
       = site (normalizeModernConfig data)"
proof -
  let ?so = "asRecord (field data (js ''site''))"
  let ?d = "normalizeModernConfig data"
  have again: "site (normalizeModernConfig (toRaw d)) =
      \<lparr>site_title = trim (site_title (site d)),
       site_themeColor = normalizeColor (trim (site_themeColor (site d))),
       site_pdfFileName = trim (site_pdfFileName (site d)),
       site_order = normalizeOrder (toStringArray (JArr (map rawAliasValue (site_order (site d))))),
       site_moduleTitles =
         spread MODULE_TITLES
           (foldl titleMapStep [] (map (\<lambda>(k, v). (k, JStr v)) (site_moduleTitles (site d))))\<rparr>" for d
    by (simp add: normalizeModernConfig_def toRaw_def rawSite_def Let_def)
  have first: "site ?d =
      \<lparr>site_title = orElse (toStringValue (getProp ?so (js ''title''))) defaultTitle,
       site_themeColor =
         normalizeColor (orElse (toStringValue (getProp ?so (js ''themeColor''))) (js ''#111111'')),
       site_pdfFileName = orElse (toStringValue (getProp ?so (js ''pdfFileName''))) (js ''resume.pdf''),
       site_order = normalizeOrder (toStringArray (getProp ?so (js ''order''))),
       site_moduleTitles =
         spread MODULE_TITLES (normalizeModuleTitleMap (asRecord (getProp ?so (js ''moduleTitles''))))\<rparr>"
    by (simp add: normalizeModernConfig_def Let_def)
  have nr: "numbersRendered (getProp ?so k)" for k
    using assms(1) by (intro numbersRendered_getProp numbersRendered_field)
  have t: "trim (site_title (site ?d)) = site_title (site ?d)"
    using orElse_trimmed [OF nr defaults_trimmed(1), of "js ''title''"] by (simp add: first)
  have p: "trim (site_pdfFileName (site ?d)) = site_pdfFileName (site ?d)"
    using orElse_trimmed [OF nr defaults_trimmed(3), of "js ''pdfFileName''"] by (simp add: first)
  have c: "normalizeColor (trim (site_themeColor (site ?d))) = site_themeColor (site ?d)"
    by (simp add: first normalizeColor_trimmed normalizeColor_idem)
  have o: "normalizeOrder (toStringArray (JArr (map rawAliasValue (site_order (site ?d)))))
      = site_order (site ?d)"
    using normalizeOrder_idem [OF assms(2)] by (simp add: first)
  have m: "spread MODULE_TITLES
           (foldl titleMapStep [] (map (\<lambda>(k, v). (k, JStr v)) (site_moduleTitles (site ?d))))
      = site_moduleTitles (site ?d)"
  proof (cases "asRecord (getProp ?so (js ''moduleTitles''))")
    case None
    have "spread MODULE_TITLES (foldl titleMapStep [] (map (\<lambda>(k, v). (k, JStr v)) MODULE_TITLES))
        = MODULE_TITLES"
      using values_MODULE_TITLES by (intro moduleTitles_again) simp_all
    with None show ?thesis by (simp add: first spread_def)
  next
    case (Some ps)
    have "numbersRendered (JObj ps)"
      using nr [of "js ''moduleTitles''"] Some
      by (cases "getProp ?so (js ''moduleTitles'')") (simp_all split: if_splits)
    with assms(3) Some
    have "\<forall>q \<in> set ps. cleanKey (fst q) \<noteq> js ''constructor'' \<and> numbersRendered (snd q)"
      by simp
    from moduleTitles_shape [OF this] moduleTitles_again
    have "spread MODULE_TITLES
           (foldl titleMapStep []
              (map (\<lambda>(k, v). (k, JStr v)) (spread MODULE_TITLES (foldl titleMapStep [] ps))))
        = spread MODULE_TITLES (foldl titleMapStep [] ps)"
      by blast
    with Some show ?thesis by (simp add: first)
  qed
  show ?thesis
    by (subst again) (simp only: t p c o m, simp)
qed

lemma basic_idem:
  assumes "numbersRendered data"
  shows "basic (normalizeModernConfig (toRaw (normalizeModernConfig data)))
       = basic (normalizeModernConfig data)"
proof -
  let ?bo = "asRecord (field data (js ''basic''))"
  let ?d = "normalizeModernConfig data"
  have again: "basic (normalizeModernConfig (toRaw d)) =
      \<lparr>basic_name = trim (basic_name (basic d)),
       basic_gender = toStringValue (rawOpt (basic_gender (basic d))),
       basic_age = toStringValue (rawOpt (basic_age (basic d))),
       basic_position = toStringValue (rawOpt (basic_position (basic d))),
       basic_workPeriod =
         Some \<lparr>wp_start =
                 toStringValue
                   (getProp (asRecord (rawMaybe rawWorkPeriod (basic_workPeriod (basic d))))
                      (js ''start'')),
               wp_end =
                 toStringValue
                   (getProp (asRecord (rawMaybe rawWorkPeriod (basic_workPeriod (basic d))))
                      (js ''end''))\<rparr>,
       basic_contacts =
         \<lparr>con_wechat = toStringValue (rawOpt (con_wechat (basic_contacts (basic d)))),
          con_phone = toStringValue (rawOpt (con_phone (basic_contacts (basic d)))),
          con_email = toStringValue (rawOpt (con_email (basic_contacts (basic d))))\<rparr>,
       basic_educationSummary =
         normalizeEducationSummary
           (asRecord (rawMaybe rawEducationSummary (basic_educationSummary (basic d)))),
       basic_addressLinks = normalizeLinks (map rawLink (basic_addressLinks (basic d)))\<rparr>" for d
    by (simp add: normalizeModernConfig_def toRaw_def rawBasic_def rawContacts_def Let_def)
  have first: "basic ?d =
      \<lparr>basic_name = orElse (toStringValue (getProp ?bo (js ''name''))) defaultName,
       basic_gender = toStringValue (getProp ?bo (js ''gender'')),
       basic_age = toStringValue (getProp ?bo (js ''age'')),
       basic_position = toStringValue (getProp ?bo (js ''position'')),
       basic_workPeriod =
         Some \<lparr>wp_start =
                 toStringValue (getProp (asRecord (getProp ?bo (js ''workPeriod''))) (js ''start'')),
               wp_end =
                 toStringValue (getProp (asRecord (getProp ?bo (js ''workPeriod''))) (js ''end''))\<rparr>,
       basic_contacts =
         \<lparr>con_wechat =
            toStringValue (getProp (asRecord (getProp ?bo (js ''contacts''))) (js ''wechat'')),
          con_phone =
            toStringValue (getProp (asRecord (getProp ?bo (js ''contacts''))) (js ''phone'')),
          con_email =
            toStringValue (getProp (asRecord (getProp ?bo (js ''contacts''))) (js ''email''))\<rparr>,
       basic_educationSummary =
         normalizeEducationSummary (asRecord (getProp ?bo (js ''educationSummary''))),
       basic_addressLinks = normalizeLinks (toArray (getProp ?bo (js ''addressLinks'')))\<rparr>"
    by (simp add: normalizeModernConfig_def Let_def)
  have nr: "numbersRendered (getProp ?bo k)" for k
    using assms by (intro numbersRendered_getProp numbersRendered_field)
  have nr2: "numbersRendered (getProp (asRecord (getProp ?bo k)) k')" for k k'
    by (rule numbersRendered_getProp) (rule nr)
  have o: "toStringValue (rawOpt (toStringValue (getProp ?bo k))) = toStringValue (getProp ?bo k)" for k
    using nr by (rule toStringValue_rawOpt)
  have o2: "toStringValue (rawOpt (toStringValue (getProp (asRecord (getProp ?bo k)) k')))
      = toStringValue (getProp (asRecord (getProp ?bo k)) k')" for k k'
    using nr2 by (rule toStringValue_rawOpt)
  show ?thesis
    using orElse_trimmed [OF nr defaults_trimmed(2), of "js ''name''"]
      o [of "js ''gender''"] o [of "js ''age''"] o [of "js ''position''"]
      o2 [of "js ''workPeriod''" "js ''start''"] o2 [of "js ''workPeriod''" "js ''end''"]
      o2 [of "js ''contacts''" "js ''wechat''"] o2 [of "js ''contacts''" "js ''phone''"]
      o2 [of "js ''contacts''" "js ''email''"]
      normalizeEducationSummary_idem [OF nr, of "js ''educationSummary''"]
      normalizeLinks_idem [OF nr, of "js ''addressLinks''"]
    by (subst again) (simp add: first rawWorkPeriod_def)
qed

lemma sections_again:
  "education (normalizeModernConfig (toRaw d)) =
     normalizeEducationSection (rawMaybe (rawItemSection rawEducationItem) (education d))"
  "skills (normalizeModernConfig (toRaw d)) = normalizeSkillsSection (rawMaybe rawSkills (skills d))"
  "projects (normalizeModernConfig (toRaw d)) =
     normalizeProjectsSection (rawMaybe (rawItemSection rawProjectItem) (projects d))"
  "profile (normalizeModernConfig (toRaw d)) =
     normalizeProfileSection (rawMaybe rawProfile (profile d))"
  "work (normalizeModernConfig (toRaw d)) =
     normalizeWorkSection (rawMaybe (rawItemSection rawWorkItem) (work d))"
  "honors (normalizeModernConfig (toRaw d)) =
     normalizeHonorsSection (rawMaybe (rawItemSection rawHonorItem) (honors d))"
  "openSource (normalizeModernConfig (toRaw d)) =
     normalizeOpenSourceSection (rawMaybe (rawItemSection rawOpenSourceItem) (openSource d))"
  by (simp_all add: normalizeModernConfig_def toRaw_def Let_def)

lemma sections_first:
  "education (normalizeModernConfig data) = normalizeEducationSection (field data (js ''education''))"
  "skills (normalizeModernConfig data) = normalizeSkillsSection (field data (js ''skills''))"
  "projects (normalizeModernConfig data) = normalizeProjectsSection (field data (js ''projects''))"
  "profile (normalizeModernConfig data) = normalizeProfileSection (field data (js ''profile''))"
  "work (normalizeModernConfig data) = normalizeWorkSection (field data (js ''work''))"
  "honors (normalizeModernConfig data) = normalizeHonorsSection (field data (js ''honors''))"
  "openSource (normalizeModernConfig data) = normalizeOpenSourceSection (field data (js ''openSource''))"
  by (simp_all add: normalizeModernConfig_def Let_def)

lemma normalizeModernConfig_idem:
  assumes "numbersRendered data"
    and "\<forall>k \<in> set (toStringArray (getProp (asRecord (field data (js ''site''))) (js ''order''))).
           cleanKey k \<noteq> js ''constructor''"
    and "\<forall>k \<in> set (objectKeys (asRecord (getProp (asRecord (field data (js ''site'')))
           (js ''moduleTitles'')))). cleanKey k \<noteq> js ''constructor''"
  shows "normalizeModernConfig (toRaw (normalizeModernConfig data)) = normalizeModernConfig data"
proof (rule NormalizedResumeConfig.equality)
  let ?d = "normalizeModernConfig data"
  show "site (normalizeModernConfig (toRaw ?d)) = site ?d"
    using assms by (rule site_idem)
  show "basic (normalizeModernConfig (toRaw ?d)) = basic ?d"
    using assms(1) by (rule basic_idem)
  have nr: "numbersRendered (field data k)" for k
    using assms(1) by (rule numbersRendered_field)
  show "education (normalizeModernConfig (toRaw ?d)) = education ?d"
    by (simp only: sections_again(1) [of ?d])
       (simp only: sections_first(1) [of data] normalizeEducationSection_idem [OF nr])
  show "skills (normalizeModernConfig (toRaw ?d)) = skills ?d"
    by (simp only: sections_again(2) [of ?d])
       (simp only: sections_first(2) [of data] normalizeSkillsSection_idem [OF nr])
  show "projects (normalizeModernConfig (toRaw ?d)) = projects ?d"
    by (simp only: sections_again(3) [of ?d])
       (simp only: sections_first(3) [of data] normalizeProjectsSection_idem [OF nr])
  show "profile (normalizeModernConfig (toRaw ?d)) = profile ?d"
    by (simp only: sections_again(4) [of ?d])
       (simp only: sections_first(4) [of data] normalizeProfileSection_idem [OF nr])
  show "work (normalizeModernConfig (toRaw ?d)) = work ?d"
    by (simp only: sections_again(5) [of ?d])
       (simp only: sections_first(5) [of data] normalizeWorkSection_idem [OF nr])
  show "honors (normalizeModernConfig (toRaw ?d)) = honors ?d"
    by (simp only: sections_again(6) [of ?d])
       (simp only: sections_first(6) [of data] normalizeHonorsSection_idem [OF nr])
  show "openSource (normalizeModernConfig (toRaw ?d)) = openSource ?d"
    by (simp only: sections_again(7) [of ?d])
       (simp only: sections_first(7) [of data] normalizeOpenSourceSection_idem [OF nr])
  show "NormalizedResumeConfig.more (normalizeModernConfig (toRaw ?d)) = NormalizedResumeConfig.more ?d"
    by simp
qed

text \<open>
  Normalising the document of a modern input again returns the same document, when no
  entry of the order and no title key of the input cleans to \<open>constructor\<close>.
\<close>

lemma normalizeConfig_idempotent:
  assumes "numbersRendered raw" "constructorFree raw" "\<not> takesLegacyPath raw"
    and "normalizeConfig raw = Inr d"
  shows "normalizeConfig (toRaw d) = Inr d"
proof -
  let ?data = "coalesce raw (JObj [])"
  from assms(3,4) have d: "d = normalizeModernConfig ?data"
    by (simp add: normalizeConfig_cases split: if_splits)
  have "normalizeModernConfig (toRaw (normalizeModernConfig ?data)) = normalizeModernConfig ?data"
    using numbersRendered_data [OF assms(1)] assms(2)
    by (intro normalizeModernConfig_idem) (simp_all add: constructorFree_def Let_def)
  moreover have "normalizeConfig (toRaw d) = Inr (normalizeModernConfig (toRaw d))"
    by (simp add: toRaw_def normalizeConfig_def)
  ultimately show ?thesis by (simp add: d)
qed

lemma normalizeConfig_idempotent_example:
  "normalizeConfig (toRaw (normalizeModernConfig modernTwoJobs)) = normalizeConfig modernTwoJobs"
proof -
  have "normalizeConfig modernTwoJobs = Inr (normalizeModernConfig modernTwoJobs)"
    by (simp add: modernTwoJobs_def normalizeConfig_def)
  moreover have "numbersRendered modernTwoJobs" "constructorFree modernTwoJobs"
    "\<not> takesLegacyPath modernTwoJobs"
    by (simp_all add: modernTwoJobs_def constructorFree_def takesLegacyPath_def)
  ultimately show ?thesis
    using normalizeConfig_idempotent [of modernTwoJobs "normalizeModernConfig modernTwoJobs"]
    by simp
qed

text \<open>
  Claim C6: normalising the document of a modern input again returns the same document.
  The code at the modern input \<^verbatim>\<open>{site: {order: ['constructor']}}\<close>: the first document
  has an order of eight entries, with \<^verbatim>\<open>Object.prototype.constructor\<close> first; normalising
  that document drops the entry, which is not a string, and returns an order of seven.
\<close>

theorem renormalize_constructor_order:
  "normalizeConfig modernConstructorOrder = Inr (normalizeModernConfig modernConstructorOrder)
   \<and> site_order (site (normalizeModernConfig modernConstructorOrder)) =
       Inherited (js ''constructor'') # map Key DEFAULT_ORDER
   \<and> normalizeConfig (toRaw (normalizeModernConfig modernConstructorOrder)) =
       Inr (normalizeModernConfig (toRaw (normalizeModernConfig modernConstructorOrder)))
   \<and> site_order (site (normalizeModernConfig (toRaw (normalizeModernConfig modernConstructorOrder)))) =
       map Key DEFAULT_ORDER
   \<and> normalizeConfig (toRaw (normalizeModernConfig modernConstructorOrder)) \<noteq>
       normalizeConfig modernConstructorOrder"
proof -
  have 1: "normalizeConfig modernConstructorOrder
      = Inr (normalizeModernConfig modernConstructorOrder)"
    by (simp add: modernConstructorOrder_def normalizeConfig_def)
  have 2: "site_order (site (normalizeModernConfig modernConstructorOrder))
      = Inherited (js ''constructor'') # map Key DEFAULT_ORDER"
    by (simp add: modernConstructorOrder_def normalizeModernConfig_def Let_def trim_def
          isWhiteSpace_def normalizeOrder_def DEFAULT_ORDER_def MODULE_ALIAS_get_def
          MODULE_ALIAS_def cleanKey_def toLowerCase_def lowerUnit_def objectPrototypeMembers_def)
  have 3: "normalizeConfig (toRaw (normalizeModernConfig modernConstructorOrder))
      = Inr (normalizeModernConfig (toRaw (normalizeModernConfig modernConstructorOrder)))"
    by (simp add: toRaw_def normalizeConfig_def)
  have "site_order (site (normalizeModernConfig (toRaw d)))
      = normalizeOrder (toStringArray (JArr (map rawAliasValue (site_order (site d)))))" for d
    by (simp add: toRaw_def rawSite_def normalizeModernConfig_def Let_def)
  then have 4: "site_order (site (normalizeModernConfig (toRaw (normalizeModernConfig modernConstructorOrder))))
      = map Key DEFAULT_ORDER"
    by (simp add: 2 trim_def isWhiteSpace_def normalizeOrder_def DEFAULT_ORDER_def
          MODULE_ALIAS_get_def MODULE_ALIAS_def cleanKey_def toLowerCase_def lowerUnit_def
          objectPrototypeMembers_def)
  have "normalizeModernConfig (toRaw (normalizeModernConfig modernConstructorOrder))
      \<noteq> normalizeModernConfig modernConstructorOrder"
  proof
    assume "normalizeModernConfig (toRaw (normalizeModernConfig modernConstructorOrder))
      = normalizeModernConfig modernConstructorOrder"
    then have "site_order (site (normalizeModernConfig (toRaw (normalizeModernConfig modernConstructorOrder))))
      = site_order (site (normalizeModernConfig modernConstructorOrder))" by simp
    then show False by (simp only: 2 4) simp
  qed
  with 1 2 3 4 show ?thesis by simp
qed

end
